theory Spec2Isabelle
  imports Complex_Main
begin

section \<open>Data model: typed columns and frames\<close>

text \<open>
  The pipeline of \<^verbatim>\<open>src/data_processing.py\<close> and the report generator of
  \<^verbatim>\<open>src/plots.py\<close> work on a pandas DataFrame. A frame is modelled as an ordered
  association list from column names to typed columns; the column types are the pandas
  dtypes that the two programs meet:
  \<^item> \<open>Numeric\<close>: int64/float64, \<open>None\<close> is NaN. Numbers are exact rationals: rounding of
    IEEE doubles is not modelled.
  \<^item> \<open>Datetime\<close>: datetime64, \<open>None\<close> is NaT, timestamps to the second.
  \<^item> \<open>Object\<close>: object dtype holding strings, \<^verbatim>\<open>datetime.date\<close> values, or NaN.
  \<^item> \<open>Category\<close>: the categorical result of \<^verbatim>\<open>pd.cut\<close>/\<^verbatim>\<open>pd.qcut\<close> with labels.
  Column names are assumed pairwise distinct (as \<^verbatim>\<open>pd.read_csv\<close> delivers them); a
  lookup reads the first column of that name.
\<close>

datatype datetime =
  Timestamp (yr: int) (mo: nat) (dy: nat) (hr: nat) (mi: nat) (sc: nat)

datatype date = Date int nat nat

datatype obj = Text string | Day date

datatype series =
    Numeric "rat option list"
  | Datetime "datetime option list"
  | Object "obj option list"
  | Category "string option list"

type_synonym frame = "(string \<times> series) list"

datatype error =
    OSError
  | FileNotFoundError
  | ParserError
  | AttributeError
  | TypeError
  | ValueError
  | KeyError
  | PlotError

definition ebind :: "error + 'a \<Rightarrow> ('a \<Rightarrow> error + 'b) \<Rightarrow> error + 'b" where
  "ebind m f = (case m of Inl e \<Rightarrow> Inl e | Inr x \<Rightarrow> f x)"

fun series_len :: "series \<Rightarrow> nat" where
  "series_len (Numeric xs) = length xs"
| "series_len (Datetime xs) = length xs"
| "series_len (Object xs) = length xs"
| "series_len (Category xs) = length xs"

definition columns :: "frame \<Rightarrow> string list" where
  "columns df = map fst df"

definition has_col :: "string \<Rightarrow> frame \<Rightarrow> bool" where
  "has_col c df = (c \<in> set (columns df))"

definition get_col :: "frame \<Rightarrow> string \<Rightarrow> series option" where
  "get_col df c = map_of df c"

text \<open>\<^verbatim>\<open>df[c] = s\<close>: an existing column is replaced in place, a new one is appended.\<close>

fun set_col :: "string \<Rightarrow> series \<Rightarrow> frame \<Rightarrow> frame" where
  "set_col c s [] = [(c, s)]"
| "set_col c s ((k, v) # df) = (if k = c then (c, s) # df else (k, v) # set_col c s df)"

section \<open>Calendar arithmetic behind the \<^verbatim>\<open>.dt\<close> accessor\<close>

text \<open>Days since 1970-01-01 in the proleptic Gregorian calendar.\<close>

definition days_from_civil :: "int \<Rightarrow> nat \<Rightarrow> nat \<Rightarrow> int" where
  "days_from_civil y m d =
     (let y' = (if m \<le> 2 then y - 1 else y);
          era = y' div 400;
          yoe = y' - era * 400;
          mp = (if m > 2 then int m - 3 else int m + 9);
          doy = (153 * mp + 2) div 5 + int d - 1;
          doe = yoe * 365 + yoe div 4 - yoe div 100 + doy
      in era * 146097 + doe - 719468)"

text \<open>\<^verbatim>\<open>Timestamp.weekday()\<close>: Monday is 0; 1970-01-01 was a Thursday.\<close>

definition weekday_of :: "datetime \<Rightarrow> nat" where
  "weekday_of t = nat ((days_from_civil (yr t) (mo t) (dy t) + 3) mod 7)"

definition day_names :: "string list" where
  "day_names = [''Monday'', ''Tuesday'', ''Wednesday'', ''Thursday'', ''Friday'',
                ''Saturday'', ''Sunday'']"

definition day_name_of :: "datetime \<Rightarrow> string" where
  "day_name_of t = day_names ! weekday_of t"

text \<open>Nanoseconds since the epoch: the int64 view of a datetime64[ns] value.\<close>

definition epoch_ns :: "datetime \<Rightarrow> int" where
  "epoch_ns t =
     (((days_from_civil (yr t) (mo t) (dy t) * 24 + int (hr t)) * 60 + int (mi t)) * 60
        + int (sc t)) * 1000000000"

section \<open>Column statistics\<close>

definition dropna :: "'a option list \<Rightarrow> 'a list" where
  "dropna xs = map the (filter (\<lambda>x. x \<noteq> None) xs)"

text \<open>
  \<^verbatim>\<open>Series.median()\<close> skips NaN; of an even number of values it is the mean of the two
  middle ones; of no value at all it is NaN (\<open>None\<close>).
\<close>

definition median :: "rat option list \<Rightarrow> rat option" where
  "median xs =
     (let vs = sort (dropna xs); n = length vs
      in if n = 0 then None
         else if odd n then Some (vs ! (n div 2))
         else Some ((vs ! (n div 2 - 1) + vs ! (n div 2)) / 2))"

definition fillna :: "'a \<Rightarrow> 'a option list \<Rightarrow> 'a option list" where
  "fillna v xs = map (\<lambda>x. case x of None \<Rightarrow> Some v | Some y \<Rightarrow> Some y) xs"

section \<open>\<^verbatim>\<open>impute_and_cast\<close>\<close>

text \<open>
  \<^verbatim>\<open>pd.to_numeric(s, errors="coerce")\<close>. A numeric column is returned as it is; a
  datetime column is viewed as int64 nanoseconds (NaT is the smallest int64); every other
  column is converted element by element, a string by the parser \<open>P\<close> (a parameter: any
  function from text to an optional number), anything unparseable to NaN.
\<close>

fun to_numeric :: "(string \<Rightarrow> rat option) \<Rightarrow> series \<Rightarrow> rat option list" where
  "to_numeric P (Numeric xs) = xs"
| "to_numeric P (Datetime ds) =
     map (\<lambda>d. Some (case d of None \<Rightarrow> - (2 ^ 63) | Some t \<Rightarrow> of_int (epoch_ns t))) ds"
| "to_numeric P (Object os) =
     map (\<lambda>x. case x of Some (Text t) \<Rightarrow> P t | _ \<Rightarrow> None) os"
| "to_numeric P (Category cs) =
     map (\<lambda>x. case x of Some t \<Rightarrow> P t | None \<Rightarrow> None) cs"

definition numeric_cols :: "string list" where
  "numeric_cols = [''temp'', ''atemp'', ''humidity'', ''windspeed'', ''casual'',
                   ''registered'', ''count'']"

definition categorical_cols :: "string list" where
  "categorical_cols = [''season'', ''weather'', ''workingday'', ''holiday'']"

text \<open>Lines 52-56: coerce, take the median, replace a NaN median by 0, fill.\<close>

definition impute_col :: "(string \<Rightarrow> rat option) \<Rightarrow> series \<Rightarrow> series" where
  "impute_col P s =
     (let xs = to_numeric P s;
          med = (case median xs of None \<Rightarrow> 0 | Some m \<Rightarrow> m)
      in Numeric (fillna med xs))"

text \<open>\<^verbatim>\<open>astype(int)\<close> on a float without NaN truncates towards zero.\<close>

definition trunc :: "rat \<Rightarrow> int" where
  "trunc r = (if 0 \<le> r then \<lfloor>r\<rfloor> else \<lceil>r\<rceil>)"

text \<open>Line 61: coerce, fill with 0, cast to int.\<close>

definition cast_col :: "(string \<Rightarrow> rat option) \<Rightarrow> series \<Rightarrow> series" where
  "cast_col P s =
     Numeric (map (\<lambda>x. map_option (\<lambda>v. of_int (trunc v)) x) (fillna 0 (to_numeric P s)))"

fun impute_loop :: "(string \<Rightarrow> rat option) \<Rightarrow> string list \<Rightarrow> frame \<Rightarrow> frame" where
  "impute_loop P [] df = df"
| "impute_loop P (c # cs) df =
     impute_loop P cs
       (case get_col df c of None \<Rightarrow> df | Some s \<Rightarrow> set_col c (impute_col P s) df)"

fun cast_loop :: "(string \<Rightarrow> rat option) \<Rightarrow> string list \<Rightarrow> frame \<Rightarrow> frame" where
  "cast_loop P [] df = df"
| "cast_loop P (c # cs) df =
     cast_loop P cs
       (case get_col df c of None \<Rightarrow> df | Some s \<Rightarrow> set_col c (cast_col P s) df)"

definition impute_and_cast :: "(string \<Rightarrow> rat option) \<Rightarrow> frame \<Rightarrow> frame" where
  "impute_and_cast P df = cast_loop P categorical_cols (impute_loop P numeric_cols df)"

section \<open>\<^verbatim>\<open>basic_clean\<close>\<close>

text \<open>
  \<^verbatim>\<open>c.strip().lower()\<close> on a column name. Names are ASCII text: the white space that
  \<^verbatim>\<open>str.strip\<close> removes is the ASCII white space, and \<^verbatim>\<open>str.lower\<close> maps A-Z to a-z.
\<close>

definition is_space :: "char \<Rightarrow> bool" where
  "is_space c = (of_char c \<in> {9, 10, 11, 12, 13, 28, 29, 30, 31, 32 :: nat})"

definition strip :: "string \<Rightarrow> string" where
  "strip s = rev (dropWhile is_space (rev (dropWhile is_space s)))"

definition lower_char :: "char \<Rightarrow> char" where
  "lower_char c =
     (if 65 \<le> (of_char c :: nat) \<and> (of_char c :: nat) \<le> 90
      then char_of (of_char c + 32 :: nat) else c)"

definition lower :: "string \<Rightarrow> string" where
  "lower s = map lower_char s"

definition rename :: "(string \<Rightarrow> string) \<Rightarrow> frame \<Rightarrow> frame" where
  "rename f df = map (\<lambda>(c, s). (f c, s)) df"

text \<open>Whether row \<open>i\<close> of a column is null (NaN, NaT, None).\<close>

fun isna_at :: "series \<Rightarrow> nat \<Rightarrow> bool" where
  "isna_at (Numeric xs) i = (xs ! i = None)"
| "isna_at (Datetime xs) i = (xs ! i = None)"
| "isna_at (Object xs) i = (xs ! i = None)"
| "isna_at (Category xs) i = (xs ! i = None)"

text \<open>
  \<^verbatim>\<open>pd.to_datetime(s, errors="coerce")\<close>. A datetime column is returned as it is. For any
  other column the conversion of row \<open>i\<close> is \<open>PD s i\<close>, where \<open>PD\<close> is a parameter (the
  library's parser, which may look at the whole column to guess a format); what it cannot
  parse is NaT, and so is a null.
\<close>

definition to_datetime ::
  "(series \<Rightarrow> nat \<Rightarrow> datetime option) \<Rightarrow> series \<Rightarrow> datetime option list" where
  "to_datetime PD s =
     (case s of
        Datetime ds \<Rightarrow> ds
      | _ \<Rightarrow> map (\<lambda>i. if isna_at s i then None else PD s i) [0..<series_len s])"

text \<open>One cell of a row, for the comparison of rows.\<close>

datatype cell =
    CNum "rat option"
  | CDt "datetime option"
  | CObj "obj option"
  | CCat "string option"

fun cell_at :: "series \<Rightarrow> nat \<Rightarrow> cell" where
  "cell_at (Numeric xs) i = CNum (xs ! i)"
| "cell_at (Datetime xs) i = CDt (xs ! i)"
| "cell_at (Object xs) i = CObj (xs ! i)"
| "cell_at (Category xs) i = CCat (xs ! i)"

definition row :: "frame \<Rightarrow> nat \<Rightarrow> cell list" where
  "row df i = map (\<lambda>(c, s). cell_at s i) df"

definition nrows :: "frame \<Rightarrow> nat" where
  "nrows df = (case df of [] \<Rightarrow> 0 | (c, s) # _ \<Rightarrow> series_len s)"

fun take_rows :: "nat list \<Rightarrow> series \<Rightarrow> series" where
  "take_rows idx (Numeric xs) = Numeric (map (\<lambda>i. xs ! i) idx)"
| "take_rows idx (Datetime xs) = Datetime (map (\<lambda>i. xs ! i) idx)"
| "take_rows idx (Object xs) = Object (map (\<lambda>i. xs ! i) idx)"
| "take_rows idx (Category xs) = Category (map (\<lambda>i. xs ! i) idx)"

text \<open>
  \<^verbatim>\<open>df.drop_duplicates().reset_index(drop=True)\<close>: a row is kept when no earlier row is
  equal to it in every column (nulls compare equal); the kept rows keep their order.
\<close>

definition drop_duplicates :: "frame \<Rightarrow> frame" where
  "drop_duplicates df =
     (let kept = filter (\<lambda>i. row df i \<notin> set (map (row df) [0..<i])) [0..<nrows df]
      in map (\<lambda>(c, s). (c, take_rows kept s)) df)"

definition basic_clean :: "(series \<Rightarrow> nat \<Rightarrow> datetime option) \<Rightarrow> frame \<Rightarrow> frame" where
  "basic_clean PD df =
     (let df1 = rename (\<lambda>c. lower (strip c)) df;
          df2 = (case get_col df1 ''datetime'' of
                   None \<Rightarrow> df1
                 | Some s \<Rightarrow> set_col ''datetime'' (Datetime (to_datetime PD s)) df1)
      in drop_duplicates df2)"

section \<open>Binning: \<^verbatim>\<open>pd.qcut\<close> and \<^verbatim>\<open>pd.cut\<close>\<close>

text \<open>
  \<^verbatim>\<open>Series.quantile(q)\<close> with linear interpolation, on the sorted non-null values: the
  position is \<open>q * (n - 1)\<close>, and the value is interpolated between its two neighbours.
  The quantile of no value is NaN (\<open>None\<close>).
\<close>

definition quantile :: "rat list \<Rightarrow> rat \<Rightarrow> rat option" where
  "quantile vs q =
     (let n = length vs;
          pos = q * of_nat (n - 1);
          lo = nat \<lfloor>pos\<rfloor>;
          hi = min (lo + 1) (n - 1);
          frac = pos - of_nat lo
      in if n = 0 then None else Some (vs ! lo + (vs ! hi - vs ! lo) * frac))"

text \<open>
  The label of one value: \<^verbatim>\<open>bins.searchsorted(x, side="left")\<close> counts the edges below
  the value; with \<^verbatim>\<open>include_lowest\<close> a value equal to the first edge goes to the first
  bin; a value outside all bins, or a null, is NaN.
\<close>

definition bin_label :: "rat list \<Rightarrow> string list \<Rightarrow> bool \<Rightarrow> rat option \<Rightarrow> string option" where
  "bin_label bins labels include_lowest x =
     (case x of
        None \<Rightarrow> None
      | Some v \<Rightarrow>
          (let ids0 = length (filter (\<lambda>b. b < v) bins);
               ids = (if include_lowest \<and> bins \<noteq> [] \<and> v = hd bins then 1 else ids0)
           in if ids = 0 \<or> ids = length bins then None else Some (labels ! (ids - 1))))"

text \<open>
  \<^verbatim>\<open>_bins_to_cuts\<close> with the default \<^verbatim>\<open>duplicates="raise"\<close>: bin edges that are not
  pairwise different (a NaN edge counts as a value) raise ValueError unless there are
  exactly two edges; so does a list of labels of the wrong length.
\<close>

definition bins_to_cuts ::
  "rat option list \<Rightarrow> string list \<Rightarrow> bool \<Rightarrow> rat option list \<Rightarrow> error + series" where
  "bins_to_cuts bins labels include_lowest xs =
     (if \<not> distinct bins \<and> length bins \<noteq> 2 then Inl ValueError
      else if length labels \<noteq> length bins - 1 then Inl ValueError
      else Inr (Category (map (bin_label (dropna bins) labels include_lowest) xs)))"

text \<open>
  \<^verbatim>\<open>pd.qcut(s, q=q, labels=labels)\<close>: the edges are the quantiles \<open>0, 1/q, ..., 1\<close> of the
  non-null values. The columns binned by the pipeline are numeric once \<open>impute_and_cast\<close>
  has run; for any other dtype the model reports TypeError.
\<close>

definition qcut :: "series \<Rightarrow> nat \<Rightarrow> string list \<Rightarrow> error + series" where
  "qcut s q labels =
     (case s of
        Numeric xs \<Rightarrow>
          (let vs = sort (dropna xs);
               bins = map (\<lambda>i. quantile vs (of_nat i / of_nat q)) [0..<q + 1]
           in bins_to_cuts bins labels True xs)
      | _ \<Rightarrow> Inl TypeError)"

text \<open>\<^verbatim>\<open>pd.cut(s, bins=bins, labels=labels)\<close> with right-closed bins.\<close>

definition cut :: "series \<Rightarrow> rat list \<Rightarrow> string list \<Rightarrow> error + series" where
  "cut s bins labels =
     (case s of
        Numeric xs \<Rightarrow> bins_to_cuts (map Some bins) labels False xs
      | _ \<Rightarrow> Inl TypeError)"

section \<open>\<^verbatim>\<open>feature_engineering\<close>\<close>

text \<open>
  \<^verbatim>\<open>s.dt\<close>: only a datetime column has the accessor; on any other column pandas raises
  AttributeError.
\<close>

definition dt_accessor :: "series \<Rightarrow> error + datetime option list" where
  "dt_accessor s = (case s of Datetime ds \<Rightarrow> Inr ds | _ \<Rightarrow> Inl AttributeError)"

definition dt_hour :: "datetime option list \<Rightarrow> series" where
  "dt_hour ds = Numeric (map (map_option (\<lambda>t. of_nat (hr t))) ds)"

definition dt_day_name :: "datetime option list \<Rightarrow> series" where
  "dt_day_name ds = Object (map (map_option (\<lambda>t. Text (day_name_of t))) ds)"

definition dt_weekday :: "datetime option list \<Rightarrow> series" where
  "dt_weekday ds = Numeric (map (map_option (\<lambda>t. of_nat (weekday_of t))) ds)"

definition dt_month :: "datetime option list \<Rightarrow> series" where
  "dt_month ds = Numeric (map (map_option (\<lambda>t. of_nat (mo t))) ds)"

definition dt_year :: "datetime option list \<Rightarrow> series" where
  "dt_year ds = Numeric (map (map_option (\<lambda>t. of_int (yr t))) ds)"

definition dt_date :: "datetime option list \<Rightarrow> series" where
  "dt_date ds = Object (map (map_option (\<lambda>t. Day (Date (yr t) (mo t) (dy t)))) ds)"

text \<open>
  Lines 67-75. Each assignment reads \<^verbatim>\<open>df["datetime"].dt\<close> again; no assignment changes
  that column, so the accessor is taken once.
\<close>

definition fe_datetime :: "frame \<Rightarrow> error + frame" where
  "fe_datetime df =
     (case get_col df ''datetime'' of
        None \<Rightarrow> Inr df
      | Some s \<Rightarrow>
          ebind (dt_accessor s) (\<lambda>ds.
            Inr (set_col ''date'' (dt_date ds)
                (set_col ''year'' (dt_year ds)
                (set_col ''month'' (dt_month ds)
                (set_col ''weekday'' (dt_weekday ds)
                (set_col ''day_of_week'' (dt_day_name ds)
                (set_col ''hour'' (dt_hour ds) df))))))))"

definition season_map :: "(rat \<times> string) list" where
  "season_map = [(1, ''spring''), (2, ''summer''), (3, ''fall''), (4, ''winter'')]"

definition weather_map :: "(rat \<times> string) list" where
  "weather_map = [(1, ''clear''), (2, ''mist/cloudy''), (3, ''light_precip''),
                  (4, ''heavy_precip'')]"

text \<open>
  \<^verbatim>\<open>s.map(d).fillna("unknown")\<close> for a dictionary \<open>d\<close> with integer keys: a number that is
  a key is mapped to its label; every other value (a number that is no key, a null, a
  string, a date, a timestamp) is mapped to NaN and then filled with \<open>unknown\<close>.
\<close>

definition label_of :: "(rat \<times> string) list \<Rightarrow> cell \<Rightarrow> string" where
  "label_of d x =
     (case x of
        CNum (Some r) \<Rightarrow> (case map_of d r of Some l \<Rightarrow> l | None \<Rightarrow> ''unknown'')
      | _ \<Rightarrow> ''unknown'')"

definition map_labels :: "(rat \<times> string) list \<Rightarrow> series \<Rightarrow> series" where
  "map_labels d s = Object (map (\<lambda>i. Some (Text (label_of d (cell_at s i)))) [0..<series_len s])"

definition fe_season :: "frame \<Rightarrow> frame" where
  "fe_season df =
     (case get_col df ''season'' of
        None \<Rightarrow> df
      | Some s \<Rightarrow> set_col ''season_label'' (map_labels season_map s) df)"

definition fe_weather :: "frame \<Rightarrow> frame" where
  "fe_weather df =
     (case get_col df ''weather'' of
        None \<Rightarrow> df
      | Some s \<Rightarrow> set_col ''weather_label'' (map_labels weather_map s) df)"

definition add_opt :: "rat option \<Rightarrow> rat option \<Rightarrow> rat option" where
  "add_opt x y = (case (x, y) of (Some a, Some b) \<Rightarrow> Some (a + b) | _ \<Rightarrow> None)"

text \<open>
  \<^verbatim>\<open>a + b\<close> on two columns of one frame. Numeric columns add row by row, a NaN operand
  giving NaN. Object columns are added where both operands are non-null: two strings
  concatenate, a date cannot be added; a number and a string cannot be added. Datetime
  and categorical columns do not support \<open>+\<close>.
\<close>

definition obj_add :: "obj option \<Rightarrow> obj option \<Rightarrow> error + obj option" where
  "obj_add x y =
     (case (x, y) of
        (Some (Text a), Some (Text b)) \<Rightarrow> Inr (Some (Text (a @ b)))
      | (Some _, Some _) \<Rightarrow> Inl TypeError
      | _ \<Rightarrow> Inr None)"

fun sequence :: "(error + 'a) list \<Rightarrow> error + 'a list" where
  "sequence [] = Inr []"
| "sequence (m # ms) = ebind m (\<lambda>x. ebind (sequence ms) (\<lambda>xs. Inr (x # xs)))"

definition series_add :: "series \<Rightarrow> series \<Rightarrow> error + series" where
  "series_add a b =
     (case (a, b) of
        (Numeric xs, Numeric ys) \<Rightarrow> Inr (Numeric (map2 add_opt xs ys))
      | (Object xs, Object ys) \<Rightarrow>
          ebind (sequence (map2 obj_add xs ys)) (\<lambda>zs. Inr (Object zs))
      | (Numeric xs, Object ys) \<Rightarrow>
          (if \<exists>(x, y) \<in> set (zip xs ys). x \<noteq> None \<and> y \<noteq> None then Inl TypeError
           else Inr (Object (map (\<lambda>_. None) (zip xs ys))))
      | (Object xs, Numeric ys) \<Rightarrow>
          (if \<exists>(x, y) \<in> set (zip xs ys). x \<noteq> None \<and> y \<noteq> None then Inl TypeError
           else Inr (Object (map (\<lambda>_. None) (zip xs ys))))
      | _ \<Rightarrow> Inl TypeError)"

text \<open>Lines 88-89.\<close>

definition fe_count :: "frame \<Rightarrow> error + frame" where
  "fe_count df =
     (if \<not> has_col ''count'' df \<and> has_col ''registered'' df \<and> has_col ''casual'' df
      then (case (get_col df ''registered'', get_col df ''casual'') of
              (Some r, Some c) \<Rightarrow> ebind (series_add r c) (\<lambda>s. Inr (set_col ''count'' s df))
            | _ \<Rightarrow> Inr df)
      else Inr df)"

definition temp_labels :: "string list" where
  "temp_labels = [''cold'', ''mild'', ''warm'', ''hot'']"

definition level_labels :: "string list" where
  "level_labels = [''low'', ''medium'', ''high'']"

text \<open>Lines 93-94 and 96-97: \<open>src\<close> is \<open>temp\<close> or \<open>atemp\<close>, \<open>tgt\<close> its category column.\<close>

definition fe_quartiles :: "string \<Rightarrow> string \<Rightarrow> frame \<Rightarrow> error + frame" where
  "fe_quartiles src tgt df =
     (case get_col df src of
        Some s \<Rightarrow>
          (if \<not> has_col tgt df
           then ebind (qcut s 4 temp_labels) (\<lambda>cat. Inr (set_col tgt cat df))
           else Inr df)
      | None \<Rightarrow> Inr df)"

text \<open>Lines 99-100.\<close>

definition fe_humidity :: "frame \<Rightarrow> error + frame" where
  "fe_humidity df =
     (case get_col df ''humidity'' of
        Some s \<Rightarrow>
          (if \<not> has_col ''humidity_category'' df
           then ebind (cut s [- 1, 30, 60, 100] level_labels)
                  (\<lambda>cat. Inr (set_col ''humidity_category'' cat df))
           else Inr df)
      | None \<Rightarrow> Inr df)"

text \<open>
  \<^verbatim>\<open>s.replace(0, m)\<close> where \<open>m\<close> is \<^verbatim>\<open>s.median()\<close>: every entry equal to 0 becomes the
  median (NaN when the column has no non-null value, in which case it has no 0 either).
\<close>

definition replace_zero :: "rat option \<Rightarrow> rat option list \<Rightarrow> rat option list" where
  "replace_zero m xs = map (\<lambda>x. if x = Some 0 then m else x) xs"

text \<open>
  Lines 102-105. The \<open>windspeed\<close> column itself is rewritten (line 104) before the binning
  (line 105). The median and \<^verbatim>\<open>replace\<close> are modelled on a numeric column, which is what
  \<open>impute_and_cast\<close> leaves; for any other dtype the model reports TypeError.
\<close>

definition fe_windspeed :: "frame \<Rightarrow> error + frame" where
  "fe_windspeed df =
     (case get_col df ''windspeed'' of
        Some s \<Rightarrow>
          (if \<not> has_col ''windspeed_category'' df
           then (case s of
                   Numeric xs \<Rightarrow>
                     (let df1 = set_col ''windspeed'' (Numeric (replace_zero (median xs) xs)) df
                      in ebind (qcut (Numeric (replace_zero (median xs) xs)) 3 level_labels)
                           (\<lambda>cat. Inr (set_col ''windspeed_category'' cat df1)))
                 | _ \<Rightarrow> Inl TypeError)
           else Inr df)
      | None \<Rightarrow> Inr df)"

definition feature_engineering :: "frame \<Rightarrow> error + frame" where
  "feature_engineering df =
     ebind (fe_datetime df) (\<lambda>df1.
     ebind (fe_count (fe_weather (fe_season df1))) (\<lambda>df2.
     ebind (fe_quartiles ''temp'' ''temp_category'' df2) (\<lambda>df3.
     ebind (fe_quartiles ''atemp'' ''atemp_category'' df3) (\<lambda>df4.
     ebind (fe_humidity df4) (\<lambda>df5.
     fe_windspeed df5)))))"

section \<open>Sources, the persisted artifact, and \<^verbatim>\<open>process\<close>\<close>

text \<open>
  What the two programs take from outside is a parameter of the model:
  \<^item> the world maps a location (a local path or a URL, as \<^verbatim>\<open>pd.read_csv\<close> accepts both)
    to what is stored there: nothing, something that is no table, or a delimited text
    table given by its header and the texts of each column;
  \<^item> \<open>parse_number\<close> and \<open>parse_datetime\<close> are the parsers behind \<^verbatim>\<open>pd.to_numeric\<close> and
    \<^verbatim>\<open>pd.to_datetime\<close>; \<open>render\<close> is the text \<^verbatim>\<open>to_csv\<close> writes for a column and \<open>infer\<close>
    the typed column \<^verbatim>\<open>read_csv\<close> makes of a column of texts.
  Printing and the creation of the output directory are not modelled.
\<close>

type_synonym csv = "(string \<times> string list) list"

datatype content = Malformed | Csv csv

type_synonym world = "string \<Rightarrow> content option"

record pandas =
  parse_number :: "string \<Rightarrow> rat option"
  parse_datetime :: "series \<Rightarrow> nat \<Rightarrow> datetime option"
  render :: "series \<Rightarrow> string list"
  infer :: "string list \<Rightarrow> series"

definition DEFAULT_URL :: string where
  "DEFAULT_URL = ''https://d2beiqkhq929f0.cloudfront.net/public_assets/assets/000/001/428/original/bike_sharing.csv?1642089089''"

definition DEFAULT_INPUT :: string where
  "DEFAULT_INPUT = ''data/yulu_data.csv''"

definition DEFAULT_OUTPUT :: string where
  "DEFAULT_OUTPUT = ''data/processed_yulu_data.csv''"

text \<open>\<^verbatim>\<open>pd.read_csv(src)\<close>: an unreadable source raises OSError, a malformed one ParserError.\<close>

definition read_csv :: "pandas \<Rightarrow> world \<Rightarrow> string \<Rightarrow> error + frame" where
  "read_csv L W src =
     (case W src of
        None \<Rightarrow> Inl OSError
      | Some Malformed \<Rightarrow> Inl ParserError
      | Some (Csv t) \<Rightarrow> Inr (map (\<lambda>(c, txt). (c, infer L txt)) t))"

text \<open>An optional string argument when it is truthy: neither \<^verbatim>\<open>None\<close> nor empty.\<close>

definition truthy :: "string option \<Rightarrow> string option" where
  "truthy a = (case a of None \<Rightarrow> None | Some s \<Rightarrow> if s = [] then None else Some s)"

definition load_data :: "pandas \<Rightarrow> world \<Rightarrow> string option \<Rightarrow> string option \<Rightarrow> error + frame" where
  "load_data L W path url =
     (case truthy url of
        Some u \<Rightarrow> read_csv L W u
      | None \<Rightarrow>
          (case truthy path of
             Some p \<Rightarrow> read_csv L W p
           | None \<Rightarrow>
               (if W DEFAULT_INPUT \<noteq> None then read_csv L W DEFAULT_INPUT
                else read_csv L W DEFAULT_URL)))"

text \<open>\<^verbatim>\<open>df.to_csv(path, index=False)\<close>: the header and every column, rendered.\<close>

definition to_csv :: "pandas \<Rightarrow> frame \<Rightarrow> csv" where
  "to_csv L df = map (\<lambda>(c, s). (c, render L s)) df"

text \<open>The frame that \<open>process\<close> returns, and the world with the artifact written.\<close>

definition process ::
  "pandas \<Rightarrow> world \<Rightarrow> string option \<Rightarrow> string option \<Rightarrow> string option
     \<Rightarrow> error + (frame \<times> world)" where
  "process L W input_path url output_path =
     (let out = (case truthy output_path of Some p \<Rightarrow> p | None \<Rightarrow> DEFAULT_OUTPUT)
      in ebind (load_data L W input_path url) (\<lambda>df0.
         ebind (feature_engineering
                  (impute_and_cast (parse_number L) (basic_clean (parse_datetime L) df0)))
           (\<lambda>df. Inr (df, W(out \<mapsto> Csv (to_csv L df))))))"

section \<open>The report generator\<close>

text \<open>
  \<^verbatim>\<open>pd.to_datetime(s)\<close> with the default \<^verbatim>\<open>errors="raise"\<close>: a non-null entry that the
  parser rejects raises ValueError.
\<close>

definition to_datetime_strict ::
  "(series \<Rightarrow> nat \<Rightarrow> datetime option) \<Rightarrow> series \<Rightarrow> error + datetime option list" where
  "to_datetime_strict PD s =
     (case s of
        Datetime ds \<Rightarrow> Inr ds
      | _ \<Rightarrow>
          (if list_ex (\<lambda>i. \<not> isna_at s i \<and> PD s i = None) [0..<series_len s]
           then Inl ValueError
           else Inr (map (\<lambda>i. if isna_at s i then None else PD s i) [0..<series_len s])))"

text \<open>
  \<^verbatim>\<open>pd.read_csv(p, parse_dates=["datetime"])\<close>: a header without the column named in
  \<^verbatim>\<open>parse_dates\<close> raises ValueError; a column that does not parse as dates is left as it
  was read.
\<close>

definition read_csv_parse_dates :: "pandas \<Rightarrow> csv \<Rightarrow> error + frame" where
  "read_csv_parse_dates L t =
     (if ''datetime'' \<notin> set (map fst t) then Inl ValueError
      else Inr (map (\<lambda>(c, txt).
                  (c, if c = ''datetime''
                      then (case to_datetime_strict (parse_datetime L) (infer L txt) of
                              Inr ds \<Rightarrow> Datetime ds
                            | Inl _ \<Rightarrow> infer L txt)
                      else infer L txt)) t))"

text \<open>
  The charting calls (seaborn, matplotlib) only read the frame. Whether a call succeeds is
  the parameter \<open>D\<close>, asked with the name of the call and the frame it is given; a call
  that fails raises. A renderer returns the frame as it leaves it and the figures saved.
\<close>

type_synonym drawing = "string \<Rightarrow> frame \<Rightarrow> bool"

definition draw :: "drawing \<Rightarrow> string \<Rightarrow> frame \<Rightarrow> error + unit" where
  "draw D call df = (if D call df then Inr () else Inl PlotError)"

definition plot_seasonal_trends :: "drawing \<Rightarrow> frame \<Rightarrow> error + (frame \<times> string list)" where
  "plot_seasonal_trends D df =
     (if \<not> has_col ''season_label'' df then Inr (df, [])
      else ebind (draw D ''boxplot'' df) (\<lambda>_. Inr (df, [''seasonal_trends.png''])))"

definition plot_temp_vs_count :: "drawing \<Rightarrow> frame \<Rightarrow> error + (frame \<times> string list)" where
  "plot_temp_vs_count D df =
     (if \<not> has_col ''temp'' df then Inr (df, [])
      else ebind (draw D ''scatterplot'' df) (\<lambda>_.
           ebind (case draw D ''regplot_lowess'' df of
                    Inr u \<Rightarrow> Inr u
                  | Inl _ \<Rightarrow> draw D ''regplot'' df) (\<lambda>_.
           Inr (df, [''temp_vs_count.png'']))))"

text \<open>Lines 58-73: the renderer assigns \<open>hour\<close> to the frame it was given.\<close>

definition plot_hourly_pattern ::
  "pandas \<Rightarrow> drawing \<Rightarrow> frame \<Rightarrow> error + (frame \<times> string list)" where
  "plot_hourly_pattern L D df =
     (let rest = (\<lambda>df1.
            if \<not> has_col ''count'' df1 then Inl KeyError
            else ebind (draw D ''lineplot'' df1) (\<lambda>_. Inr (df1, [''hourly_pattern.png''])))
      in if \<not> has_col ''hour'' df
         then (case get_col df ''datetime'' of
                 Some s \<Rightarrow>
                   ebind (to_datetime_strict (parse_datetime L) s) (\<lambda>ds.
                     rest (set_col ''hour'' (dt_hour ds) df))
               | None \<Rightarrow> Inr (df, []))
         else rest df)"

definition plot_category_counts ::
  "drawing \<Rightarrow> string \<Rightarrow> frame \<Rightarrow> error + (frame \<times> string list)" where
  "plot_category_counts D cat_col df =
     (if \<not> has_col cat_col df then Inr (df, [])
      else ebind (draw D ''countplot'' df) (\<lambda>_. Inr (df, [cat_col @ ''_distribution.png''])))"

definition plot_registered_vs_casual ::
  "drawing \<Rightarrow> frame \<Rightarrow> error + (frame \<times> string list)" where
  "plot_registered_vs_casual D df =
     (if has_col ''registered'' df \<and> has_col ''casual'' df
      then ebind (draw D ''pie'' df) (\<lambda>_.
             if has_col ''date'' df
             then ebind (draw D ''timeseries'' df) (\<lambda>_.
                    Inr (df, [''registered_vs_casual.png'',
                              ''registered_vs_casual_timeseries.png'']))
             else Inr (df, [''registered_vs_casual.png'']))
      else Inr (df, []))"

fun is_number :: "series \<Rightarrow> bool" where
  "is_number (Numeric xs) = True"
| "is_number _ = False"

definition plot_correlation_heatmap ::
  "drawing \<Rightarrow> frame \<Rightarrow> error + (frame \<times> string list)" where
  "plot_correlation_heatmap D df =
     (if length (filter (\<lambda>(c, s). is_number s) df) < 2 then Inr (df, [])
      else ebind (draw D ''heatmap'' df) (\<lambda>_. Inr (df, [''correlation_heatmap.png''])))"

text \<open>Running one renderer after another on the frame the previous one left.\<close>

definition and_then ::
  "error + (frame \<times> string list) \<Rightarrow> (frame \<Rightarrow> error + (frame \<times> string list))
     \<Rightarrow> error + (frame \<times> string list)" where
  "and_then m f =
     ebind m (\<lambda>(df, figs). ebind (f df) (\<lambda>(df', figs'). Inr (df', figs @ figs')))"

text \<open>Lines 139-141: the loop over the four category columns.\<close>

fun category_plots :: "drawing \<Rightarrow> string list \<Rightarrow> frame \<Rightarrow> error + (frame \<times> string list)" where
  "category_plots D [] df = Inr (df, [])"
| "category_plots D (cat # cats) df =
     and_then (if has_col cat df then plot_category_counts D cat df else Inr (df, []))
       (category_plots D cats)"

text \<open>Lines 135-143: the renderers, in the order \<open>generate_all\<close> calls them.\<close>

definition renderers :: "pandas \<Rightarrow> drawing \<Rightarrow> frame \<Rightarrow> error + (frame \<times> string list)" where
  "renderers L D df =
     and_then (and_then (and_then (and_then (and_then
       (plot_seasonal_trends D df)
       (plot_temp_vs_count D))
       (plot_hourly_pattern L D))
       (category_plots D [''temp_category'', ''atemp_category'', ''humidity_category'',
                          ''windspeed_category'']))
       (plot_registered_vs_casual D))
       (plot_correlation_heatmap D)"

text \<open>Lines 130-133: the loader of the report generator and the date column it restores.\<close>

definition load_processed :: "pandas \<Rightarrow> world \<Rightarrow> string \<Rightarrow> error + frame" where
  "load_processed L W input_csv =
     (case W input_csv of
        None \<Rightarrow> Inl FileNotFoundError
      | Some Malformed \<Rightarrow> Inl ParserError
      | Some (Csv t) \<Rightarrow> read_csv_parse_dates L t)"

definition ensure_date :: "pandas \<Rightarrow> frame \<Rightarrow> error + frame" where
  "ensure_date L df =
     (if \<not> has_col ''date'' df
      then (case get_col df ''datetime'' of
              Some s \<Rightarrow>
                ebind (to_datetime_strict (parse_datetime L) s) (\<lambda>ds.
                  Inr (set_col ''date'' (dt_date ds) df))
            | None \<Rightarrow> Inr df)
      else Inr df)"

definition generate_all ::
  "pandas \<Rightarrow> drawing \<Rightarrow> world \<Rightarrow> string \<Rightarrow> error + (frame \<times> string list)" where
  "generate_all L D W input_csv =
     ebind (load_processed L W input_csv) (\<lambda>df0.
     ebind (ensure_date L df0) (\<lambda>df. renderers L D df))"

section \<open>The label maps as the specification words them\<close>

definition spec_season_label :: "rat option \<Rightarrow> string" where
  "spec_season_label code =
     (if code = Some 1 then ''spring''
      else if code = Some 2 then ''summer''
      else if code = Some 3 then ''fall''
      else if code = Some 4 then ''winter''
      else ''unknown'')"

definition spec_weather_label :: "rat option \<Rightarrow> string" where
  "spec_weather_label code =
     (if code = Some 1 then ''clear''
      else if code = Some 2 then ''mist/cloudy''
      else if code = Some 3 then ''light_precip''
      else if code = Some 4 then ''heavy_precip''
      else ''unknown'')"

section \<open>An instance of the parameters, for the concrete runs\<close>

text \<open>
  The theorems below hold for every library and every world. The concrete runs use this
  instance: the numbers are the unsigned decimal integers, the one text that is a date is
  \<open>2011-01-01 05:00:00\<close>, a column
  whose texts are all integers or blank is read as numeric and any other as strings, and a
  column is written with a mark for each non-null entry.
\<close>

fun parse_digits :: "nat \<Rightarrow> string \<Rightarrow> nat option" where
  "parse_digits acc [] = Some acc"
| "parse_digits acc (c # cs) =
     (if 48 \<le> (of_char c :: nat) \<and> (of_char c :: nat) \<le> 57
      then parse_digits (acc * 10 + (of_char c - 48)) cs else None)"

definition example_number :: "string \<Rightarrow> rat option" where
  "example_number t = (if t = [] then None else map_option of_nat (parse_digits 0 t))"

definition example_infer :: "string list \<Rightarrow> series" where
  "example_infer txt =
     (if list_all (\<lambda>t. t = [] \<or> example_number t \<noteq> None) txt
      then Numeric (map example_number txt)
      else Object (map (\<lambda>t. if t = [] then None else Some (Text t)) txt))"

definition example_datetime :: "series \<Rightarrow> nat \<Rightarrow> datetime option" where
  "example_datetime s i =
     (case s of
        Object xs \<Rightarrow>
          (if xs ! i = Some (Text ''2011-01-01 05:00:00'')
           then Some (Timestamp 2011 1 1 5 0 0) else None)
      | _ \<Rightarrow> None)"

definition example_render :: "series \<Rightarrow> string list" where
  "example_render s = map (\<lambda>i. if isna_at s i then [] else ''x'') [0..<series_len s]"

definition example_pandas :: pandas where
  "example_pandas =
     \<lparr>parse_number = example_number, parse_datetime = example_datetime,
      render = example_render, infer = example_infer\<rparr>"

definition always_draws :: drawing where
  "always_draws call df = True"

definition wind_world :: world where
  "wind_world = Map.empty(''in.csv'' \<mapsto> Csv [(''windspeed'', [''0'', ''5'', ''10'', ''15''])])"

definition tied_world :: world where
  "tied_world =
     Map.empty(''in.csv'' \<mapsto>
       Csv [(''temp'', [''10'', ''10'', ''10'', ''10'', ''20'']),
            (''casual'', [''1'', ''2'', ''3'', ''4'', ''5''])])"

definition wind_frame :: frame where
  "wind_frame = [(''windspeed'', Numeric [Some 0, Some 5, Some 10, Some 15])]"

definition wind_result :: frame where
  "wind_result =
     [(''windspeed'', Numeric [Some (15 / 2), Some 5, Some 10, Some 15]),
      (''windspeed_category'', Category [Some ''low'', Some ''low'', Some ''medium'', Some ''high''])]"

definition tied_frame :: frame where
  "tied_frame =
     [(''temp'', Numeric [Some 10, Some 10, Some 10, Some 10, Some 20]),
      (''casual'', Numeric [Some 1, Some 2, Some 3, Some 4, Some 5])]"

definition both_world :: world where
  "both_world =
     Map.empty(''local.csv'' \<mapsto> Csv [(''casual'', [''1''])],
               ''http://example.org/remote.csv'' \<mapsto> Csv [(''registered'', [''2''])])"

definition report_world :: world where
  "report_world =
     Map.empty(''processed.csv'' \<mapsto>
       Csv [(''datetime'', [''2011-01-01 05:00:00'']), (''count'', [''16''])])"

definition report_loaded :: frame where
  "report_loaded =
     [(''datetime'', Datetime [Some (Timestamp 2011 1 1 5 0 0)]), (''count'', Numeric [Some 16])]"

definition report_dated :: frame where
  "report_dated =
     [(''datetime'', Datetime [Some (Timestamp 2011 1 1 5 0 0)]), (''count'', Numeric [Some 16]),
      (''date'', Object [Some (Day (Date 2011 1 1))])]"

definition report_result :: frame where
  "report_result =
     [(''datetime'', Datetime [Some (Timestamp 2011 1 1 5 0 0)]), (''count'', Numeric [Some 16]),
      (''date'', Object [Some (Day (Date 2011 1 1))]), (''hour'', Numeric [Some 5])]"

section \<open>The derived columns and their guards\<close>

text \<open>
  The derived columns whose assignment tests that the target is absent (lines 88-105),
  each with its source columns; and the derived columns assigned whenever the source is
  present (lines 67-85), each with its source column.
\<close>

definition guarded_columns :: "(string \<times> string list) list" where
  "guarded_columns =
     [(''count'', [''registered'', ''casual'']),
      (''temp_category'', [''temp'']),
      (''atemp_category'', [''atemp'']),
      (''humidity_category'', [''humidity'']),
      (''windspeed_category'', [''windspeed''])]"

definition unguarded_columns :: "(string \<times> string) list" where
  "unguarded_columns =
     [(''hour'', ''datetime''), (''day_of_week'', ''datetime''), (''weekday'', ''datetime''),
      (''month'', ''datetime''), (''year'', ''datetime''), (''date'', ''datetime''),
      (''season_label'', ''season''), (''weather_label'', ''weather'')]"

definition stamped_frame :: frame where
  "stamped_frame =
     [(''datetime'', Datetime [Some (Timestamp 2011 1 1 5 0 0)]), (''hour'', Numeric [Some 23])]"

definition stamped_result :: frame where
  "stamped_result =
     [(''datetime'', Datetime [Some (Timestamp 2011 1 1 5 0 0)]),
      (''hour'', Numeric [Some 5]),
      (''day_of_week'', Object [Some (Text ''Saturday'')]),
      (''weekday'', Numeric [Some 5]),
      (''month'', Numeric [Some 1]),
      (''year'', Numeric [Some 2011]),
      (''date'', Object [Some (Day (Date 2011 1 1))])]"

text \<open>The dtype tests used to state how the pipeline types its columns.\<close>

fun is_datetime :: "series \<Rightarrow> bool" where
  "is_datetime (Datetime xs) = True"
| "is_datetime _ = False"

definition calm_world :: world where
  "calm_world =
     Map.empty(''in.csv'' \<mapsto>
       Csv [(''windspeed'', [''0'', ''0'', ''0'', ''7'']),
            (''casual'', [''1'', ''2'', ''3'', ''4''])])"

definition calm_frame :: frame where
  "calm_frame =
     [(''windspeed'', Numeric [Some 0, Some 0, Some 0, Some 7]),
      (''casual'', Numeric [Some 1, Some 2, Some 3, Some 4])]"

section \<open>Frame lemmas\<close>

lemma get_col_set_col:
  "get_col (set_col c s df) c' = (if c' = c then Some s else get_col df c')"
  by (induction df) (auto simp: get_col_def)

lemma columns_set_col:
  "columns (set_col c s df) = (if has_col c df then columns df else columns df @ [c])"
  by (induction df) (force simp: columns_def has_col_def)+

lemma has_col_get_col: "has_col c df \<longleftrightarrow> get_col df c \<noteq> None"
  by (simp add: has_col_def columns_def get_col_def map_of_eq_None_iff)

lemma has_col_set_col: "has_col c' (set_col c s df) \<longleftrightarrow> c' = c \<or> has_col c' df"
  by (simp add: has_col_get_col get_col_set_col)

section \<open>Imputation\<close>

lemma impute_loop_other:
  "c \<notin> set cs \<Longrightarrow> get_col (impute_loop P cs df) c = get_col df c"
  by (induction cs arbitrary: df) (auto simp: get_col_set_col split: option.splits)

lemma cast_loop_other:
  "c \<notin> set cs \<Longrightarrow> get_col (cast_loop P cs df) c = get_col df c"
  by (induction cs arbitrary: df) (auto simp: get_col_set_col split: option.splits)

lemma impute_loop_hit:
  "distinct cs \<Longrightarrow> c \<in> set cs \<Longrightarrow> get_col df c = Some s \<Longrightarrow>
   get_col (impute_loop P cs df) c = Some (impute_col P s)"
proof (induction cs arbitrary: df)
  case Nil
  then show ?case by simp
next
  case (Cons a cs)
  show ?case
  proof (cases "a = c")
    case True
    with Cons.prems have "c \<notin> set cs" by simp
    with True Cons.prems(3) show ?thesis
      by (simp add: impute_loop_other get_col_set_col)
  next
    case False
    with Cons.prems have in_cs: "c \<in> set cs" and d: "distinct cs" by auto
    let ?df = "case get_col df a of None \<Rightarrow> df | Some s \<Rightarrow> set_col a (impute_col P s) df"
    from False Cons.prems(3) have "get_col ?df c = Some s"
      by (simp add: get_col_set_col split: option.splits)
    from Cons.IH [OF d in_cs this] show ?thesis by simp
  qed
qed

lemma impute_and_cast_numeric_col:
  assumes "c \<in> set numeric_cols" and "get_col df c = Some s"
  shows "get_col (impute_and_cast P df) c = Some (impute_col P s)"
proof -
  have "c \<notin> set categorical_cols"
    using assms(1) by (auto simp: numeric_cols_def categorical_cols_def)
  moreover have "distinct numeric_cols"
    by (simp add: numeric_cols_def)
  ultimately show ?thesis
    using assms by (simp add: impute_and_cast_def cast_loop_other impute_loop_hit)
qed

lemma dropna_Nil_iff: "dropna xs = [] \<longleftrightarrow> (\<forall>x \<in> set xs. x = None)"
  by (auto simp: dropna_def filter_empty_conv)

lemma median_None_iff: "median xs = None \<longleftrightarrow> (\<forall>x \<in> set xs. x = None)"
proof -
  have "median xs = None \<longleftrightarrow> length (sort (dropna xs)) = 0"
    by (simp add: median_def Let_def del: length_sort length_0_conv)
  then show ?thesis
    by (simp add: dropna_Nil_iff)
qed

text \<open>
  C4. For each of temp, atemp, humidity, windspeed, casual, registered, count that is
  present, with \<open>xs\<close> the column coerced to numbers (null where missing or unparseable):
  after \<open>impute_and_cast\<close> the column is numeric, has the same length and no null; every
  entry that was null holds the median of the non-null entries when there is one; every
  other entry is unchanged; and when every entry was null all entries are zero.
\<close>

theorem impute_and_cast_fills_median:
  assumes "c \<in> set numeric_cols" and "get_col df c = Some s"
  shows "\<exists>ys. get_col (impute_and_cast P df) c = Some (Numeric ys)
           \<and> length ys = length (to_numeric P s)
           \<and> None \<notin> set ys
           \<and> (\<forall>m. median (to_numeric P s) = Some m \<longrightarrow>
                (\<forall>i < length ys. to_numeric P s ! i = None \<longrightarrow> ys ! i = Some m))
           \<and> (\<forall>i < length ys. to_numeric P s ! i \<noteq> None \<longrightarrow> ys ! i = to_numeric P s ! i)
           \<and> ((\<forall>x \<in> set (to_numeric P s). x = None) \<longrightarrow>
                ys = replicate (length ys) (Some 0))"
proof -
  let ?xs = "to_numeric P s"
  let ?med = "case median ?xs of None \<Rightarrow> 0 | Some m \<Rightarrow> m"
  let ?ys = "fillna ?med ?xs"
  have col: "get_col (impute_and_cast P df) c = Some (Numeric ?ys)"
    using impute_and_cast_numeric_col [OF assms] by (simp add: impute_col_def Let_def)
  have len: "length ?ys = length ?xs"
    by (simp add: fillna_def)
  have nonull: "None \<notin> set ?ys"
    by (auto simp: fillna_def split: option.splits)
  have filled: "\<forall>m. median ?xs = Some m \<longrightarrow>
      (\<forall>i < length ?ys. ?xs ! i = None \<longrightarrow> ?ys ! i = Some m)"
    by (simp add: fillna_def)
  have kept: "\<forall>i < length ?ys. ?xs ! i \<noteq> None \<longrightarrow> ?ys ! i = ?xs ! i"
    by (auto simp: fillna_def split: option.splits)
  have zero: "(\<forall>x \<in> set ?xs. x = None) \<longrightarrow> ?ys = replicate (length ?ys) (Some 0)"
  proof
    assume all: "\<forall>x \<in> set ?xs. x = None"
    then have "median ?xs = None" by (simp add: median_None_iff)
    moreover from all have "\<forall>i < length ?xs. ?xs ! i = None"
      using nth_mem by blast
    ultimately show "?ys = replicate (length ?ys) (Some 0)"
      by (simp add: fillna_def list_eq_iff_nth_eq)
  qed
  from col len nonull filled kept zero show ?thesis by blast
qed

theorem impute_and_cast_fills_median_witness:
  "''temp'' \<in> set numeric_cols
   \<and> get_col [(''temp'', Numeric [Some 1, None, Some 3])] ''temp''
       = Some (Numeric [Some 1, None, Some 3])
   \<and> median [Some 1, None, Some 3] = Some 2
   \<and> get_col (impute_and_cast example_number [(''temp'', Numeric [Some 1, None, Some 3])])
        ''temp'' = Some (Numeric [Some 1, Some 2, Some 3])"
proof -
  let ?df = "[(''temp'', Numeric [Some 1, None, Some 3])]"
  have a: "''temp'' \<in> set numeric_cols"
    by (simp add: numeric_cols_def)
  have b: "get_col ?df ''temp'' = Some (Numeric [Some 1, None, Some 3])"
    by (simp add: get_col_def)
  have m: "median [Some 1, None, Some 3] = Some 2"
    by (simp add: median_def dropna_def)
  from impute_and_cast_fills_median [OF a b, of example_number] m
  obtain ys where
    col: "get_col (impute_and_cast example_number ?df) ''temp'' = Some (Numeric ys)" and
    len: "length ys = 3" and
    filled: "\<forall>i < length ys. [Some 1, None, Some (3::rat)] ! i = None \<longrightarrow> ys ! i = Some 2" and
    kept: "\<forall>i < length ys. [Some 1, None, Some (3::rat)] ! i \<noteq> None
             \<longrightarrow> ys ! i = [Some 1, None, Some 3] ! i"
    by auto
  from len obtain y0 y1 y2 where ys: "ys = [y0, y1, y2]"
    by (auto simp: length_Suc_conv numeral_3_eq_3)
  from kept [rule_format, of 0] ys have "y0 = Some 1" by simp
  moreover from filled [rule_format, of 1] ys have "y1 = Some 2" by simp
  moreover from kept [rule_format, of 2] ys have "y2 = Some 3" by simp
  ultimately show ?thesis
    using a b m col ys by simp
qed

section \<open>The steps of \<^verbatim>\<open>feature_engineering\<close>\<close>

lemma ebind_Inr_iff: "ebind m f = Inr y \<longleftrightarrow> (\<exists>x. m = Inr x \<and> f x = Inr y)"
  by (cases m) (simp_all add: ebind_def)

lemma fe_datetime_other:
  assumes "fe_datetime df = Inr df'"
    and "c \<notin> set [''hour'', ''day_of_week'', ''weekday'', ''month'', ''year'', ''date'']"
  shows "get_col df' c = get_col df c"
  using assms
  by (auto simp: fe_datetime_def ebind_Inr_iff get_col_set_col split: option.splits)

lemma fe_datetime_absent:
  "get_col df ''datetime'' = None \<Longrightarrow> fe_datetime df = Inr df"
  by (simp add: fe_datetime_def)

lemma fe_datetime_present:
  assumes "fe_datetime df = Inr df'" and "get_col df ''datetime'' = Some s"
  shows "\<exists>ds. s = Datetime ds
           \<and> get_col df' ''hour'' = Some (dt_hour ds)
           \<and> get_col df' ''day_of_week'' = Some (dt_day_name ds)
           \<and> get_col df' ''weekday'' = Some (dt_weekday ds)
           \<and> get_col df' ''month'' = Some (dt_month ds)
           \<and> get_col df' ''year'' = Some (dt_year ds)
           \<and> get_col df' ''date'' = Some (dt_date ds)"
  using assms
  by (auto simp: fe_datetime_def ebind_Inr_iff get_col_set_col dt_accessor_def
           split: series.splits)

lemma fe_season_other: "c \<noteq> ''season_label'' \<Longrightarrow> get_col (fe_season df) c = get_col df c"
  by (simp add: fe_season_def get_col_set_col split: option.splits)

lemma fe_season_label:
  "get_col (fe_season df) ''season_label'' =
     (case get_col df ''season'' of
        None \<Rightarrow> get_col df ''season_label''
      | Some s \<Rightarrow> Some (map_labels season_map s))"
  by (simp add: fe_season_def get_col_set_col split: option.splits)

lemma fe_weather_other: "c \<noteq> ''weather_label'' \<Longrightarrow> get_col (fe_weather df) c = get_col df c"
  by (simp add: fe_weather_def get_col_set_col split: option.splits)

lemma fe_weather_label:
  "get_col (fe_weather df) ''weather_label'' =
     (case get_col df ''weather'' of
        None \<Rightarrow> get_col df ''weather_label''
      | Some s \<Rightarrow> Some (map_labels weather_map s))"
  by (simp add: fe_weather_def get_col_set_col split: option.splits)

lemma fe_count_other:
  "fe_count df = Inr df' \<Longrightarrow> c \<noteq> ''count'' \<Longrightarrow> get_col df' c = get_col df c"
  by (auto simp: fe_count_def ebind_Inr_iff get_col_set_col split: if_splits option.splits)

lemma fe_count_count:
  assumes "fe_count df = Inr df'"
  shows "get_col df' ''count'' =
     (case (get_col df ''count'', get_col df ''registered'', get_col df ''casual'') of
        (None, Some r, Some c) \<Rightarrow> (case series_add r c of Inr s \<Rightarrow> Some s | Inl _ \<Rightarrow> None)
      | _ \<Rightarrow> get_col df ''count'')"
  using assms
  by (auto simp: fe_count_def ebind_Inr_iff get_col_set_col has_col_get_col
           split: if_splits option.splits)

lemma fe_count_defined:
  assumes "fe_count df = Inr df'" and "get_col df ''count'' = None"
    and "get_col df ''registered'' = Some r" and "get_col df ''casual'' = Some c"
  shows "\<exists>s. series_add r c = Inr s \<and> get_col df' ''count'' = Some s"
  using assms
  by (auto simp: fe_count_def ebind_Inr_iff get_col_set_col has_col_get_col
           split: if_splits)

lemma fe_quartiles_other:
  "fe_quartiles src tgt df = Inr df' \<Longrightarrow> c \<noteq> tgt \<Longrightarrow> get_col df' c = get_col df c"
  by (auto simp: fe_quartiles_def ebind_Inr_iff get_col_set_col split: if_splits option.splits)

lemma fe_humidity_other:
  "fe_humidity df = Inr df' \<Longrightarrow> c \<noteq> ''humidity_category'' \<Longrightarrow> get_col df' c = get_col df c"
  by (auto simp: fe_humidity_def ebind_Inr_iff get_col_set_col split: if_splits option.splits)

lemma fe_windspeed_other:
  "fe_windspeed df = Inr df' \<Longrightarrow> c \<noteq> ''windspeed'' \<Longrightarrow> c \<noteq> ''windspeed_category'' \<Longrightarrow>
   get_col df' c = get_col df c"
  by (auto simp: fe_windspeed_def ebind_Inr_iff get_col_set_col Let_def
           split: if_splits option.splits series.splits)

lemma fe_windspeed_skipped:
  "fe_windspeed df = Inr df' \<Longrightarrow>
   get_col df ''windspeed'' = None \<or> get_col df ''windspeed_category'' \<noteq> None \<Longrightarrow> df' = df"
  by (auto simp: fe_windspeed_def has_col_get_col split: if_splits option.splits)

lemma fe_windspeed_done:
  assumes "fe_windspeed df = Inr df'" and "get_col df ''windspeed'' = Some s"
    and "get_col df ''windspeed_category'' = None"
  shows "\<exists>xs cat. s = Numeric xs
           \<and> qcut (Numeric (replace_zero (median xs) xs)) 3 level_labels = Inr cat
           \<and> get_col df' ''windspeed'' = Some (Numeric (replace_zero (median xs) xs))
           \<and> get_col df' ''windspeed_category'' = Some cat"
  using assms
  by (auto simp: fe_windspeed_def ebind_Inr_iff get_col_set_col has_col_get_col Let_def
           split: if_splits series.splits)

lemma feature_engineering_steps:
  assumes "feature_engineering df = Inr df'"
  obtains df1 df2 df3 df4 df5 where
    "fe_datetime df = Inr df1"
    "fe_count (fe_weather (fe_season df1)) = Inr df2"
    "fe_quartiles ''temp'' ''temp_category'' df2 = Inr df3"
    "fe_quartiles ''atemp'' ''atemp_category'' df3 = Inr df4"
    "fe_humidity df4 = Inr df5"
    "fe_windspeed df5 = Inr df'"
  using assms unfolding feature_engineering_def ebind_Inr_iff by blast


lemma map_nth_fun: "map (\<lambda>i. f (xs ! i)) [0..<length xs] = map f xs"
  by (rule nth_equalityI) simp_all

lemma label_of_season: "label_of season_map (CNum x) = spec_season_label x"
  by (cases x) (auto simp: label_of_def season_map_def spec_season_label_def)

lemma label_of_weather: "label_of weather_map (CNum x) = spec_weather_label x"
  by (cases x) (auto simp: label_of_def weather_map_def spec_weather_label_def)

lemma map_labels_season:
  "map_labels season_map (Numeric xs) = Object (map (\<lambda>x. Some (Text (spec_season_label x))) xs)"
  by (simp add: map_labels_def label_of_season
      map_nth_fun [of "\<lambda>x. Some (Text (spec_season_label x))"])

lemma map_labels_weather:
  "map_labels weather_map (Numeric xs) = Object (map (\<lambda>x. Some (Text (spec_weather_label x))) xs)"
  by (simp add: map_labels_def label_of_weather
      map_nth_fun [of "\<lambda>x. Some (Text (spec_weather_label x))"])

lemma feature_engineering_season_label:
  assumes "feature_engineering df = Inr df'"
  shows "get_col df' ''season_label'' =
     (case get_col df ''season'' of
        None \<Rightarrow> get_col df ''season_label''
      | Some s \<Rightarrow> Some (map_labels season_map s))"
proof -
  from assms obtain df1 df2 df3 df4 df5 where
    s1: "fe_datetime df = Inr df1" and
    s2: "fe_count (fe_weather (fe_season df1)) = Inr df2" and
    s3: "fe_quartiles ''temp'' ''temp_category'' df2 = Inr df3" and
    s4: "fe_quartiles ''atemp'' ''atemp_category'' df3 = Inr df4" and
    s5: "fe_humidity df4 = Inr df5" and
    s6: "fe_windspeed df5 = Inr df'"
    by (rule feature_engineering_steps)
  have "get_col df' ''season_label'' = get_col (fe_season df1) ''season_label''"
    by (simp add: fe_windspeed_other [OF s6] fe_humidity_other [OF s5]
        fe_quartiles_other [OF s4] fe_quartiles_other [OF s3] fe_count_other [OF s2]
        fe_weather_other)
  then show ?thesis
    by (simp add: fe_season_label fe_datetime_other [OF s1] split: option.splits)
qed

lemma feature_engineering_weather_label:
  assumes "feature_engineering df = Inr df'"
  shows "get_col df' ''weather_label'' =
     (case get_col df ''weather'' of
        None \<Rightarrow> get_col df ''weather_label''
      | Some s \<Rightarrow> Some (map_labels weather_map s))"
proof -
  from assms obtain df1 df2 df3 df4 df5 where
    s1: "fe_datetime df = Inr df1" and
    s2: "fe_count (fe_weather (fe_season df1)) = Inr df2" and
    s3: "fe_quartiles ''temp'' ''temp_category'' df2 = Inr df3" and
    s4: "fe_quartiles ''atemp'' ''atemp_category'' df3 = Inr df4" and
    s5: "fe_humidity df4 = Inr df5" and
    s6: "fe_windspeed df5 = Inr df'"
    by (rule feature_engineering_steps)
  have "get_col df' ''weather_label'' = get_col (fe_weather (fe_season df1)) ''weather_label''"
    by (simp add: fe_windspeed_other [OF s6] fe_humidity_other [OF s5]
        fe_quartiles_other [OF s4] fe_quartiles_other [OF s3] fe_count_other [OF s2])
  then show ?thesis
    by (simp add: fe_weather_label fe_season_other fe_datetime_other [OF s1]
        split: option.splits)
qed

text \<open>
  C6. Whenever \<open>feature_engineering\<close> returns: if the season column is present (numeric
  codes, as \<open>impute_and_cast\<close> leaves them), \<open>season_label\<close> holds, row by row, the
  image of the code under 1 to spring, 2 to summer, 3 to fall, 4 to winter, and
  \<open>unknown\<close> for every other code or a null; likewise \<open>weather_label\<close> under 1 to clear,
  2 to mist/cloudy, 3 to light_precip, 4 to heavy_precip.
\<close>

theorem labels_follow_code_maps:
  assumes "feature_engineering df = Inr df'"
  shows "(\<forall>xs. get_col df ''season'' = Some (Numeric xs) \<longrightarrow>
            get_col df' ''season_label''
              = Some (Object (map (\<lambda>x. Some (Text (spec_season_label x))) xs)))
       \<and> (\<forall>xs. get_col df ''weather'' = Some (Numeric xs) \<longrightarrow>
            get_col df' ''weather_label''
              = Some (Object (map (\<lambda>x. Some (Text (spec_weather_label x))) xs)))"
  by (simp add: feature_engineering_season_label [OF assms]
      feature_engineering_weather_label [OF assms] map_labels_season map_labels_weather)

theorem labels_follow_code_maps_witness:
  "feature_engineering
     [(''season'', Numeric [Some 1, Some 5]), (''weather'', Numeric [Some 3, None])]
     = Inr [(''season'', Numeric [Some 1, Some 5]), (''weather'', Numeric [Some 3, None]),
            (''season_label'', Object [Some (Text ''spring''), Some (Text ''unknown'')]),
            (''weather_label'', Object [Some (Text ''light_precip''), Some (Text ''unknown'')])]
   \<and> get_col
        [(''season'', Numeric [Some 1, Some 5]), (''weather'', Numeric [Some 3, None]),
         (''season_label'', Object [Some (Text ''spring''), Some (Text ''unknown'')]),
         (''weather_label'', Object [Some (Text ''light_precip''), Some (Text ''unknown'')])]
        ''season_label''
      = Some (Object (map (\<lambda>x. Some (Text (spec_season_label x))) [Some 1, Some 5]))
   \<and> map spec_season_label [Some 1, Some 5] = [''spring'', ''unknown'']
   \<and> spec_weather_label (Some 3) = ''light_precip''"
proof -
  have fe: "feature_engineering
     [(''season'', Numeric [Some 1, Some 5]), (''weather'', Numeric [Some 3, None])]
     = Inr [(''season'', Numeric [Some 1, Some 5]), (''weather'', Numeric [Some 3, None]),
            (''season_label'', Object [Some (Text ''spring''), Some (Text ''unknown'')]),
            (''weather_label'', Object [Some (Text ''light_precip''), Some (Text ''unknown'')])]"
    by code_simp
  have season: "get_col
      [(''season'', Numeric [Some 1, Some 5]), (''weather'', Numeric [Some 3, None])] ''season''
      = Some (Numeric [Some 1, Some 5])"
    by (simp add: get_col_def)
  from labels_follow_code_maps [OF fe] season
  have "get_col
        [(''season'', Numeric [Some 1, Some 5]), (''weather'', Numeric [Some 3, None]),
         (''season_label'', Object [Some (Text ''spring''), Some (Text ''unknown'')]),
         (''weather_label'', Object [Some (Text ''light_precip''), Some (Text ''unknown'')])]
        ''season_label''
      = Some (Object (map (\<lambda>x. Some (Text (spec_season_label x))) [Some 1, Some 5]))"
    by blast
  with fe show ?thesis
    by (simp add: spec_season_label_def spec_weather_label_def)
qed

section \<open>The reconstructed count\<close>

lemma feature_engineering_count:
  assumes "feature_engineering df = Inr df'"
  shows "get_col df' ''count'' =
     (case (get_col df ''count'', get_col df ''registered'', get_col df ''casual'') of
        (None, Some r, Some c) \<Rightarrow> (case series_add r c of Inr s \<Rightarrow> Some s | Inl _ \<Rightarrow> None)
      | _ \<Rightarrow> get_col df ''count'')"
proof -
  from assms obtain df1 df2 df3 df4 df5 where
    s1: "fe_datetime df = Inr df1" and
    s2: "fe_count (fe_weather (fe_season df1)) = Inr df2" and
    s3: "fe_quartiles ''temp'' ''temp_category'' df2 = Inr df3" and
    s4: "fe_quartiles ''atemp'' ''atemp_category'' df3 = Inr df4" and
    s5: "fe_humidity df4 = Inr df5" and
    s6: "fe_windspeed df5 = Inr df'"
    by (rule feature_engineering_steps)
  let ?dw = "fe_weather (fe_season df1)"
  have last: "get_col df' ''count'' = get_col df2 ''count''"
    by (simp add: fe_windspeed_other [OF s6] fe_humidity_other [OF s5]
        fe_quartiles_other [OF s4] fe_quartiles_other [OF s3])
  have first: "get_col ?dw ''count'' = get_col df ''count''"
    "get_col ?dw ''registered'' = get_col df ''registered''"
    "get_col ?dw ''casual'' = get_col df ''casual''"
    by (simp_all add: fe_weather_other fe_season_other fe_datetime_other [OF s1])
  show ?thesis
    unfolding last fe_count_count [OF s2] first ..
qed

lemma feature_engineering_count_defined:
  assumes "feature_engineering df = Inr df'" and "get_col df ''count'' = None"
    and "get_col df ''registered'' = Some r" and "get_col df ''casual'' = Some c"
  shows "\<exists>s. series_add r c = Inr s \<and> get_col df' ''count'' = Some s"
proof -
  from assms(1) obtain df1 df2 df3 df4 df5 where
    s1: "fe_datetime df = Inr df1" and
    s2: "fe_count (fe_weather (fe_season df1)) = Inr df2" and
    s3: "fe_quartiles ''temp'' ''temp_category'' df2 = Inr df3" and
    s4: "fe_quartiles ''atemp'' ''atemp_category'' df3 = Inr df4" and
    s5: "fe_humidity df4 = Inr df5" and
    s6: "fe_windspeed df5 = Inr df'"
    by (rule feature_engineering_steps)
  let ?dw = "fe_weather (fe_season df1)"
  have "get_col ?dw ''count'' = None" "get_col ?dw ''registered'' = Some r"
    "get_col ?dw ''casual'' = Some c"
    using assms(2-4)
    by (simp_all add: fe_weather_other fe_season_other fe_datetime_other [OF s1])
  from fe_count_defined [OF s2 this]
  obtain s where "series_add r c = Inr s" and "get_col df2 ''count'' = Some s"
    by blast
  moreover have "get_col df' ''count'' = get_col df2 ''count''"
    by (simp add: fe_windspeed_other [OF s6] fe_humidity_other [OF s5]
        fe_quartiles_other [OF s4] fe_quartiles_other [OF s3])
  ultimately show ?thesis by simp
qed



section \<open>The wind-speed column\<close>

lemma feature_engineering_windspeed:
  assumes "feature_engineering df = Inr df'" and "get_col df ''windspeed'' = Some s"
    and "\<not> has_col ''windspeed_category'' df"
  shows "\<exists>xs cat. s = Numeric xs
           \<and> qcut (Numeric (replace_zero (median xs) xs)) 3 level_labels = Inr cat
           \<and> get_col df' ''windspeed'' = Some (Numeric (replace_zero (median xs) xs))
           \<and> get_col df' ''windspeed_category'' = Some cat"
proof -
  from assms(1) obtain df1 df2 df3 df4 df5 where
    s1: "fe_datetime df = Inr df1" and
    s2: "fe_count (fe_weather (fe_season df1)) = Inr df2" and
    s3: "fe_quartiles ''temp'' ''temp_category'' df2 = Inr df3" and
    s4: "fe_quartiles ''atemp'' ''atemp_category'' df3 = Inr df4" and
    s5: "fe_humidity df4 = Inr df5" and
    s6: "fe_windspeed df5 = Inr df'"
    by (rule feature_engineering_steps)
  have before: "get_col df5 c = get_col df c"
    if "c = ''windspeed'' \<or> c = ''windspeed_category''" for c
    using that
    by (auto simp: fe_humidity_other [OF s5] fe_quartiles_other [OF s4]
        fe_quartiles_other [OF s3] fe_count_other [OF s2] fe_weather_other fe_season_other
        fe_datetime_other [OF s1])
  have "get_col df5 ''windspeed'' = Some s" and "get_col df5 ''windspeed_category'' = None"
    using assms(2,3) by (simp_all add: before has_col_get_col)
  from fe_windspeed_done [OF s6 this] show ?thesis .
qed

lemma replace_zero_nth:
  "i < length xs \<Longrightarrow>
   replace_zero m xs ! i = (if xs ! i = Some 0 then m else xs ! i)"
  by (simp add: replace_zero_def)

lemma map_of_to_csv: "map_of (to_csv L df) c = map_option (render L) (get_col df c)"
  by (induction df) (auto simp: to_csv_def get_col_def)

lemma process_Inr:
  assumes "process L W input_path url output_path = Inr (df, W')"
  shows "\<exists>df0. load_data L W input_path url = Inr df0
           \<and> feature_engineering
                (impute_and_cast (parse_number L) (basic_clean (parse_datetime L) df0)) = Inr df
           \<and> W' = W((case truthy output_path of Some p \<Rightarrow> p | None \<Rightarrow> DEFAULT_OUTPUT)
                      \<mapsto> Csv (to_csv L df))"
  using assms by (auto simp: process_def Let_def ebind_Inr_iff)

text \<open>
  C10. Whenever \<open>process\<close> returns on a table that, after cleaning and imputation, has a
  windspeed column and no windspeed_category column: the windspeed column of the
  returned frame, and of the artifact written at the output path, is the imputed column
  with every entry equal to 0 replaced by the median of the imputed column, and every
  other entry as it was. The artifact holds no other copy of the column.
\<close>

theorem windspeed_rewrite_is_persisted:
  assumes "process L W input_path url output_path = Inr (df, W')"
    and "load_data L W input_path url = Inr df0"
    and "get_col (impute_and_cast (parse_number L) (basic_clean (parse_datetime L) df0))
           ''windspeed'' = Some (Numeric xs)"
    and "\<not> has_col ''windspeed_category''
           (impute_and_cast (parse_number L) (basic_clean (parse_datetime L) df0))"
  shows "\<exists>t. W' (case truthy output_path of Some p \<Rightarrow> p | None \<Rightarrow> DEFAULT_OUTPUT) = Some (Csv t)
           \<and> map_of t ''windspeed'' = Some (render L (Numeric (replace_zero (median xs) xs)))
           \<and> get_col df ''windspeed'' = Some (Numeric (replace_zero (median xs) xs))
           \<and> (\<forall>i < length xs. xs ! i = Some 0 \<longrightarrow> replace_zero (median xs) xs ! i = median xs)
           \<and> (\<forall>i < length xs. xs ! i \<noteq> Some 0 \<longrightarrow> replace_zero (median xs) xs ! i = xs ! i)"
proof -
  let ?out = "case truthy output_path of Some p \<Rightarrow> p | None \<Rightarrow> DEFAULT_OUTPUT"
  let ?ws = "Numeric (replace_zero (median xs) xs)"
  from process_Inr [OF assms(1)] assms(2)
  have fe: "feature_engineering
      (impute_and_cast (parse_number L) (basic_clean (parse_datetime L) df0)) = Inr df"
    and w: "W' = W(?out \<mapsto> Csv (to_csv L df))"
    by auto
  from feature_engineering_windspeed [OF fe assms(3,4)]
  have col: "get_col df ''windspeed'' = Some ?ws"
    by auto
  from w have "W' ?out = Some (Csv (to_csv L df))"
    by simp
  moreover from col have "map_of (to_csv L df) ''windspeed'' = Some (render L ?ws)"
    by (simp add: map_of_to_csv)
  ultimately show ?thesis
    using col by (simp add: replace_zero_nth)
qed

theorem windspeed_rewrite_is_persisted_witness:
  "load_data example_pandas wind_world (Some ''in.csv'') None = Inr wind_frame
   \<and> impute_and_cast (parse_number example_pandas)
        (basic_clean (parse_datetime example_pandas) wind_frame) = wind_frame
   \<and> get_col wind_frame ''windspeed'' = Some (Numeric [Some 0, Some 5, Some 10, Some 15])
   \<and> (\<exists>W' t. process example_pandas wind_world (Some ''in.csv'') None (Some ''out.csv'')
                = Inr (wind_result, W')
        \<and> W' ''out.csv'' = Some (Csv t)
        \<and> map_of t ''windspeed''
            = Some (render example_pandas
                      (Numeric [Some (15 / 2), Some 5, Some 10, Some 15])))
   \<and> get_col wind_result ''windspeed'' = Some (Numeric [Some (15 / 2), Some 5, Some 10, Some 15])"
proof -
  have load: "load_data example_pandas wind_world (Some ''in.csv'') None = Inr wind_frame"
    by code_simp
  have clean: "impute_and_cast (parse_number example_pandas)
      (basic_clean (parse_datetime example_pandas) wind_frame) = wind_frame"
    by code_simp
  have fe: "feature_engineering wind_frame = Inr wind_result"
    by code_simp
  have run: "process example_pandas wind_world (Some ''in.csv'') None (Some ''out.csv'')
      = Inr (wind_result, wind_world(''out.csv'' \<mapsto> Csv (to_csv example_pandas wind_result)))"
    by (simp add: process_def load clean fe ebind_def truthy_def)
  have col: "get_col (impute_and_cast (parse_number example_pandas)
      (basic_clean (parse_datetime example_pandas) wind_frame)) ''windspeed''
      = Some (Numeric [Some 0, Some 5, Some 10, Some 15])"
    unfolding clean by (simp add: get_col_def wind_frame_def)
  have nocat: "\<not> has_col ''windspeed_category'' (impute_and_cast (parse_number example_pandas)
      (basic_clean (parse_datetime example_pandas) wind_frame))"
    unfolding clean by (simp add: has_col_def columns_def wind_frame_def)
  have rz: "replace_zero (median [Some 0, Some 5, Some 10, Some 15])
      [Some 0, Some 5, Some 10, Some 15] = [Some (15 / 2), Some 5, Some 10, Some 15]"
    by code_simp
  from windspeed_rewrite_is_persisted [OF run load col nocat]
  obtain t where
    "(wind_world(''out.csv'' \<mapsto> Csv (to_csv example_pandas wind_result))) ''out.csv''
       = Some (Csv t)"
    "map_of t ''windspeed''
       = Some (render example_pandas (Numeric [Some (15 / 2), Some 5, Some 10, Some 15]))"
    "get_col wind_result ''windspeed'' = Some (Numeric [Some (15 / 2), Some 5, Some 10, Some 15])"
    unfolding rz by (auto simp: truthy_def)
  with run load clean col show ?thesis
    unfolding clean by blast
qed

text \<open>
  Two different imputed columns, one with a zero reading and one without, leave the same
  frame: the zero cannot be read back from the result.
\<close>

lemma windspeed_zero_not_recoverable:
  "feature_engineering [(''windspeed'', Numeric [Some 0, Some 5, Some 10, Some 15])]
     = feature_engineering [(''windspeed'', Numeric [Some (15 / 2), Some 5, Some 10, Some 15])]
   \<and> feature_engineering [(''windspeed'', Numeric [Some 0, Some 5, Some 10, Some 15])]
     = Inr [(''windspeed'', Numeric [Some (15 / 2), Some 5, Some 10, Some 15]),
            (''windspeed_category'',
             Category [Some ''low'', Some ''low'', Some ''medium'', Some ''high''])]"
  by code_simp

section \<open>Quantile bins with repeated edges\<close>

text \<open>
  C5. The column \<open>[0, 0, 10, 20, 30]\<close> has median 10 and its zeros are replaced by 10, as
  the claim says; but the tercile edges of \<open>[10, 10, 10, 20, 30]\<close> are 10, 10, 50/3, 30,
  the first two are equal, and \<^verbatim>\<open>pd.qcut\<close> raises ValueError: \<open>feature_engineering\<close> returns
  no binned column on this input.
\<close>

theorem windspeed_example_raises:
  "median [Some 0, Some 0, Some 10, Some 20, Some 30] = Some 10
   \<and> replace_zero (Some 10) [Some 0, Some 0, Some 10, Some 20, Some 30]
       = [Some 10, Some 10, Some 10, Some 20, Some 30]
   \<and> map (quantile [10, 10, 10, 20, 30]) [0, 1 / 3, 2 / 3, 1]
       = [Some 10, Some 10, Some (50 / 3), Some 30]
   \<and> qcut (Numeric [Some 10, Some 10, Some 10, Some 20, Some 30]) 3 level_labels
       = Inl ValueError
   \<and> feature_engineering [(''windspeed'', Numeric [Some 0, Some 0, Some 10, Some 20, Some 30])]
       = Inl ValueError"
  by code_simp

section \<open>The artifact read back by the report generator\<close>

lemma columns_to_csv: "map fst (to_csv L df) = columns df"
  by (induction df) (auto simp: to_csv_def columns_def)

lemma loader_rejects_table_without_datetime:
  assumes "process L W input_path url output_path = Inr (df, W')"
    and "\<not> has_col ''datetime'' df"
  shows "load_processed L W' (case truthy output_path of Some p \<Rightarrow> p | None \<Rightarrow> DEFAULT_OUTPUT)
           = Inl ValueError"
proof -
  let ?out = "case truthy output_path of Some p \<Rightarrow> p | None \<Rightarrow> DEFAULT_OUTPUT"
  from process_Inr [OF assms(1)] have "W' ?out = Some (Csv (to_csv L df))"
    by auto
  with assms(2) show ?thesis
    by (simp add: load_processed_def read_csv_parse_dates_def columns_to_csv has_col_def)
qed

text \<open>
  C8. The pipeline run on a table without a datetime column returns and writes its
  artifact; the loader of the report generator, which asks for the datetime column in
  \<^verbatim>\<open>parse_dates\<close>, raises ValueError on that artifact instead of returning the table.
\<close>

theorem round_trip_fails_without_datetime:
  "process example_pandas wind_world (Some ''in.csv'') None (Some ''out.csv'')
     = Inr (wind_result, wind_world(''out.csv'' \<mapsto> Csv (to_csv example_pandas wind_result)))
   \<and> load_processed example_pandas
        (wind_world(''out.csv'' \<mapsto> Csv (to_csv example_pandas wind_result))) ''out.csv''
       = Inl ValueError
   \<and> generate_all example_pandas always_draws
        (wind_world(''out.csv'' \<mapsto> Csv (to_csv example_pandas wind_result))) ''out.csv''
       = Inl ValueError"
proof -
  have load: "load_data example_pandas wind_world (Some ''in.csv'') None = Inr wind_frame"
    by code_simp
  have clean: "impute_and_cast (parse_number example_pandas)
      (basic_clean (parse_datetime example_pandas) wind_frame) = wind_frame"
    by code_simp
  have fe: "feature_engineering wind_frame = Inr wind_result"
    by code_simp
  have run: "process example_pandas wind_world (Some ''in.csv'') None (Some ''out.csv'')
      = Inr (wind_result, wind_world(''out.csv'' \<mapsto> Csv (to_csv example_pandas wind_result)))"
    by (simp add: process_def load clean fe ebind_def truthy_def)
  have nodt: "\<not> has_col ''datetime'' wind_result"
    by (simp add: has_col_def columns_def wind_result_def)
  from loader_rejects_table_without_datetime [OF run nodt]
  have reread: "load_processed example_pandas
      (wind_world(''out.csv'' \<mapsto> Csv (to_csv example_pandas wind_result))) ''out.csv''
      = Inl ValueError"
    by (simp add: truthy_def)
  then have "generate_all example_pandas always_draws
      (wind_world(''out.csv'' \<mapsto> Csv (to_csv example_pandas wind_result))) ''out.csv''
      = Inl ValueError"
    by (simp add: generate_all_def ebind_def)
  with run reread show ?thesis by simp
qed

section \<open>\<^verbatim>\<open>load_data\<close>\<close>

text \<open>
  C9. Given a URL (a non-empty string), \<open>load_data\<close> reads the URL whatever the path
  argument is: the path is not looked at, also when it is given.
\<close>

theorem url_takes_precedence:
  assumes "u \<noteq> []"
  shows "load_data L W path (Some u) = read_csv L W u"
  using assms by (simp add: load_data_def truthy_def)

theorem url_takes_precedence_witness:
  "''http://example.org/remote.csv'' \<noteq> []
   \<and> load_data example_pandas both_world (Some ''local.csv'')
        (Some ''http://example.org/remote.csv'')
       = read_csv example_pandas both_world ''http://example.org/remote.csv''
   \<and> read_csv example_pandas both_world ''http://example.org/remote.csv''
       = Inr [(''registered'', Numeric [Some 2])]
   \<and> read_csv example_pandas both_world ''local.csv'' = Inr [(''casual'', Numeric [Some 1])]"
proof -
  have u: "''http://example.org/remote.csv'' \<noteq> []"
    by simp
  have remote: "read_csv example_pandas both_world ''http://example.org/remote.csv''
      = Inr [(''registered'', Numeric [Some 2])]"
    by code_simp
  have local: "read_csv example_pandas both_world ''local.csv''
      = Inr [(''casual'', Numeric [Some 1])]"
    by code_simp
  from url_takes_precedence [OF u, of example_pandas both_world "Some ''local.csv''"]
    remote local
  show ?thesis by simp
qed

section \<open>What the renderers do to the frame\<close>

lemma and_then_Inr:
  "and_then m f = Inr (df', figs) \<longleftrightarrow>
     (\<exists>df1 f1 f2. m = Inr (df1, f1) \<and> f df1 = Inr (df', f2) \<and> figs = f1 @ f2)"
  by (cases m) (auto simp: and_then_def ebind_def split: sum.splits prod.splits)

lemma plot_seasonal_trends_frame: "plot_seasonal_trends D df = Inr (df', figs) \<Longrightarrow> df' = df"
  by (auto simp: plot_seasonal_trends_def ebind_Inr_iff split: if_splits)

lemma plot_temp_vs_count_frame: "plot_temp_vs_count D df = Inr (df', figs) \<Longrightarrow> df' = df"
  by (auto simp: plot_temp_vs_count_def ebind_Inr_iff split: if_splits)

lemma plot_category_counts_frame:
  "plot_category_counts D c df = Inr (df', figs) \<Longrightarrow> df' = df"
  by (auto simp: plot_category_counts_def ebind_Inr_iff split: if_splits)

lemma category_plots_frame: "category_plots D cats df = Inr (df', figs) \<Longrightarrow> df' = df"
proof (induction cats arbitrary: df df' figs)
  case Nil
  then show ?case by simp
next
  case (Cons c cats)
  from Cons.prems obtain df1 f1 f2 where
    first: "(if has_col c df then plot_category_counts D c df else Inr (df, [])) = Inr (df1, f1)"
    and rest: "category_plots D cats df1 = Inr (df', f2)"
    by (auto simp: and_then_Inr)
  from first have "df1 = df"
    by (auto dest: plot_category_counts_frame split: if_splits)
  with Cons.IH [OF rest] show ?case by simp
qed

lemma plot_registered_vs_casual_frame:
  "plot_registered_vs_casual D df = Inr (df', figs) \<Longrightarrow> df' = df"
  by (auto simp: plot_registered_vs_casual_def ebind_Inr_iff split: if_splits)

lemma plot_correlation_heatmap_frame:
  "plot_correlation_heatmap D df = Inr (df', figs) \<Longrightarrow> df' = df"
  by (auto simp: plot_correlation_heatmap_def ebind_Inr_iff split: if_splits)

lemma plot_hourly_pattern_frame:
  assumes "plot_hourly_pattern L D df = Inr (df', figs)"
  shows "if has_col ''hour'' df \<or> \<not> has_col ''datetime'' df then df' = df
         else \<exists>s ds. get_col df ''datetime'' = Some s
                \<and> to_datetime_strict (parse_datetime L) s = Inr ds
                \<and> df' = set_col ''hour'' (dt_hour ds) df"
  using assms
  by (auto simp: plot_hourly_pattern_def Let_def ebind_Inr_iff has_col_get_col
           split: if_splits option.splits)

lemma renderers_frame:
  assumes "renderers L D df = Inr (df', figs)"
  shows "if has_col ''hour'' df \<or> \<not> has_col ''datetime'' df then df' = df
         else \<exists>s ds. get_col df ''datetime'' = Some s
                \<and> to_datetime_strict (parse_datetime L) s = Inr ds
                \<and> df' = set_col ''hour'' (dt_hour ds) df"
proof -
  from assms obtain d1 d2 d3 d4 d5 g1 g2 g3 g4 g5 g6 where
    r1: "plot_seasonal_trends D df = Inr (d1, g1)" and
    r2: "plot_temp_vs_count D d1 = Inr (d2, g2)" and
    r3: "plot_hourly_pattern L D d2 = Inr (d3, g3)" and
    r4: "category_plots D [''temp_category'', ''atemp_category'', ''humidity_category'',
           ''windspeed_category''] d3 = Inr (d4, g4)" and
    r5: "plot_registered_vs_casual D d4 = Inr (d5, g5)" and
    r6: "plot_correlation_heatmap D d5 = Inr (df', g6)"
    unfolding renderers_def and_then_Inr by blast
  have "d2 = df"
    using plot_seasonal_trends_frame [OF r1] plot_temp_vs_count_frame [OF r2] by simp
  moreover have "df' = d3"
    using category_plots_frame [OF r4] plot_registered_vs_casual_frame [OF r5]
      plot_correlation_heatmap_frame [OF r6] by simp
  ultimately show ?thesis
    using plot_hourly_pattern_frame [OF r3] by (auto split: if_splits)
qed

text \<open>
  C3 as amended. Whenever \<open>generate_all\<close> returns, the frame the renderers leave is the
  loaded frame (with the date column restored) except for one thing: when it has a
  datetime column and no hour column, \<open>plot_hourly_pattern\<close> appends an hour column to it.
  Every other column, and the frame in every other case, is left as it was.
\<close>

theorem renderers_only_add_hour:
  assumes "generate_all L D W input_csv = Inr (df', figs)"
  shows "\<exists>df0 df. load_processed L W input_csv = Inr df0 \<and> ensure_date L df0 = Inr df
           \<and> (if has_col ''hour'' df \<or> \<not> has_col ''datetime'' df then df' = df
               else (\<exists>s ds. get_col df ''datetime'' = Some s
                       \<and> to_datetime_strict (parse_datetime L) s = Inr ds
                       \<and> df' = set_col ''hour'' (dt_hour ds) df)
                    \<and> columns df' = columns df @ [''hour''])
           \<and> (\<forall>c. c \<noteq> ''hour'' \<longrightarrow> get_col df' c = get_col df c)"
proof -
  from assms obtain df0 df where
    l: "load_processed L W input_csv = Inr df0" and
    e: "ensure_date L df0 = Inr df" and
    r: "renderers L D df = Inr (df', figs)"
    by (auto simp: generate_all_def ebind_Inr_iff)
  note fr = renderers_frame [OF r]
  have shape: "if has_col ''hour'' df \<or> \<not> has_col ''datetime'' df then df' = df
      else (\<exists>s ds. get_col df ''datetime'' = Some s
              \<and> to_datetime_strict (parse_datetime L) s = Inr ds
              \<and> df' = set_col ''hour'' (dt_hour ds) df)
           \<and> columns df' = columns df @ [''hour'']"
    using fr by (auto simp: columns_set_col split: if_splits)
  have others: "\<forall>c. c \<noteq> ''hour'' \<longrightarrow> get_col df' c = get_col df c"
    using fr by (auto simp: get_col_set_col split: if_splits)
  from l e shape others show ?thesis by blast
qed


theorem hour_column_added_counterexample:
  "load_processed example_pandas report_world ''processed.csv'' = Inr report_loaded
   \<and> ensure_date example_pandas report_loaded = Inr report_dated
   \<and> renderers example_pandas always_draws report_dated
       = Inr (report_result, [''hourly_pattern.png'', ''correlation_heatmap.png''])
   \<and> \<not> has_col ''hour'' report_dated
   \<and> get_col report_result ''hour'' = Some (Numeric [Some 5])
   \<and> report_result \<noteq> report_dated"
  by code_simp

theorem renderers_only_add_hour_witness:
  "generate_all example_pandas always_draws report_world ''processed.csv''
     = Inr (report_result, [''hourly_pattern.png'', ''correlation_heatmap.png''])
   \<and> columns report_result = columns report_dated @ [''hour'']
   \<and> get_col report_result ''count'' = get_col report_dated ''count''"
proof -
  have run: "generate_all example_pandas always_draws report_world ''processed.csv''
      = Inr (report_result, [''hourly_pattern.png'', ''correlation_heatmap.png''])"
    by code_simp
  have l: "load_processed example_pandas report_world ''processed.csv'' = Inr report_loaded"
    by code_simp
  have e: "ensure_date example_pandas report_loaded = Inr report_dated"
    by code_simp
  have h: "\<not> (has_col ''hour'' report_dated \<or> \<not> has_col ''datetime'' report_dated)"
    by code_simp
  from renderers_only_add_hour [OF run] l e
  have "(if has_col ''hour'' report_dated \<or> \<not> has_col ''datetime'' report_dated
         then report_result = report_dated
         else (\<exists>s ds. get_col report_dated ''datetime'' = Some s
                 \<and> to_datetime_strict (parse_datetime example_pandas) s = Inr ds
                 \<and> report_result = set_col ''hour'' (dt_hour ds) report_dated)
              \<and> columns report_result = columns report_dated @ [''hour''])
        \<and> (\<forall>c. c \<noteq> ''hour'' \<longrightarrow> get_col report_result c = get_col report_dated c)"
    by auto
  with h run show ?thesis
    by simp
qed

section \<open>Which derived columns are guarded by their target\<close>

lemma fe_quartiles_skipped:
  "fe_quartiles src tgt df = Inr df' \<Longrightarrow>
   get_col df src = None \<or> get_col df tgt \<noteq> None \<Longrightarrow> df' = df"
  by (auto simp: fe_quartiles_def has_col_get_col split: if_splits option.splits)

lemma fe_quartiles_done:
  assumes "fe_quartiles src tgt df = Inr df'" and "get_col df src = Some s"
    and "get_col df tgt = None"
  shows "\<exists>cat. qcut s 4 temp_labels = Inr cat \<and> get_col df' tgt = Some cat"
  using assms
  by (auto simp: fe_quartiles_def ebind_Inr_iff get_col_set_col has_col_get_col)

lemma fe_humidity_skipped:
  "fe_humidity df = Inr df' \<Longrightarrow>
   get_col df ''humidity'' = None \<or> get_col df ''humidity_category'' \<noteq> None \<Longrightarrow> df' = df"
  by (auto simp: fe_humidity_def has_col_get_col split: if_splits option.splits)

lemma fe_humidity_done:
  assumes "fe_humidity df = Inr df'" and "get_col df ''humidity'' = Some s"
    and "get_col df ''humidity_category'' = None"
  shows "\<exists>cat. cut s [- 1, 30, 60, 100] level_labels = Inr cat
           \<and> get_col df' ''humidity_category'' = Some cat"
  using assms
  by (auto simp: fe_humidity_def ebind_Inr_iff get_col_set_col has_col_get_col)

text \<open>The column a step starts from, for the four binning steps.\<close>

lemma feature_engineering_trace:
  assumes "feature_engineering df = Inr df'"
  shows "\<exists>df2 df3 df4 df5.
           fe_quartiles ''temp'' ''temp_category'' df2 = Inr df3
         \<and> fe_quartiles ''atemp'' ''atemp_category'' df3 = Inr df4
         \<and> fe_humidity df4 = Inr df5
         \<and> fe_windspeed df5 = Inr df'
         \<and> (\<forall>c. c \<notin> set [''hour'', ''day_of_week'', ''weekday'', ''month'', ''year'',
                            ''date'', ''season_label'', ''weather_label'', ''count''] \<longrightarrow>
                  get_col df2 c = get_col df c)"
proof -
  from assms obtain df1 df2 df3 df4 df5 where
    s1: "fe_datetime df = Inr df1" and
    s2: "fe_count (fe_weather (fe_season df1)) = Inr df2" and
    s3: "fe_quartiles ''temp'' ''temp_category'' df2 = Inr df3" and
    s4: "fe_quartiles ''atemp'' ''atemp_category'' df3 = Inr df4" and
    s5: "fe_humidity df4 = Inr df5" and
    s6: "fe_windspeed df5 = Inr df'"
    by (rule feature_engineering_steps)
  have "\<forall>c. c \<notin> set [''hour'', ''day_of_week'', ''weekday'', ''month'', ''year'',
                      ''date'', ''season_label'', ''weather_label'', ''count''] \<longrightarrow>
            get_col df2 c = get_col df c"
    by (simp add: fe_count_other [OF s2] fe_weather_other fe_season_other
        fe_datetime_other [OF s1])
  with s3 s4 s5 s6 show ?thesis
    by blast
qed

lemma feature_engineering_temp_category:
  assumes "feature_engineering df = Inr df'"
  shows "get_col df ''temp'' = None \<or> get_col df ''temp_category'' \<noteq> None \<Longrightarrow>
           get_col df' ''temp_category'' = get_col df ''temp_category''"
    and "get_col df ''temp'' = Some s \<Longrightarrow> get_col df ''temp_category'' = None \<Longrightarrow>
           \<exists>cat. qcut s 4 temp_labels = Inr cat \<and> get_col df' ''temp_category'' = Some cat"
proof -
  from assms obtain df2 df3 df4 df5 where
    s3: "fe_quartiles ''temp'' ''temp_category'' df2 = Inr df3" and
    s4: "fe_quartiles ''atemp'' ''atemp_category'' df3 = Inr df4" and
    s5: "fe_humidity df4 = Inr df5" and
    s6: "fe_windspeed df5 = Inr df'" and
    pre: "\<forall>c. c \<notin> set [''hour'', ''day_of_week'', ''weekday'', ''month'', ''year'',
                     ''date'', ''season_label'', ''weather_label'', ''count''] \<longrightarrow>
            get_col df2 c = get_col df c"
    using feature_engineering_trace by blast
  have post: "get_col df' ''temp_category'' = get_col df3 ''temp_category''"
    by (simp add: fe_windspeed_other [OF s6] fe_humidity_other [OF s5]
        fe_quartiles_other [OF s4])
  have src: "get_col df2 ''temp'' = get_col df ''temp''"
    and tgt: "get_col df2 ''temp_category'' = get_col df ''temp_category''"
    by (simp_all add: pre)
  show "get_col df' ''temp_category'' = get_col df ''temp_category''"
    if "get_col df ''temp'' = None \<or> get_col df ''temp_category'' \<noteq> None"
    using fe_quartiles_skipped [OF s3] that by (simp add: post src tgt)
  show "\<exists>cat. qcut s 4 temp_labels = Inr cat \<and> get_col df' ''temp_category'' = Some cat"
    if "get_col df ''temp'' = Some s" and "get_col df ''temp_category'' = None"
    using fe_quartiles_done [OF s3, of s] that by (simp add: post src tgt)
qed

lemma feature_engineering_atemp_category:
  assumes "feature_engineering df = Inr df'"
  shows "get_col df ''atemp'' = None \<or> get_col df ''atemp_category'' \<noteq> None \<Longrightarrow>
           get_col df' ''atemp_category'' = get_col df ''atemp_category''"
    and "get_col df ''atemp'' = Some s \<Longrightarrow> get_col df ''atemp_category'' = None \<Longrightarrow>
           \<exists>cat. qcut s 4 temp_labels = Inr cat \<and> get_col df' ''atemp_category'' = Some cat"
proof -
  from assms obtain df2 df3 df4 df5 where
    s3: "fe_quartiles ''temp'' ''temp_category'' df2 = Inr df3" and
    s4: "fe_quartiles ''atemp'' ''atemp_category'' df3 = Inr df4" and
    s5: "fe_humidity df4 = Inr df5" and
    s6: "fe_windspeed df5 = Inr df'" and
    pre: "\<forall>c. c \<notin> set [''hour'', ''day_of_week'', ''weekday'', ''month'', ''year'',
                     ''date'', ''season_label'', ''weather_label'', ''count''] \<longrightarrow>
            get_col df2 c = get_col df c"
    using feature_engineering_trace by blast
  have post: "get_col df' ''atemp_category'' = get_col df4 ''atemp_category''"
    by (simp add: fe_windspeed_other [OF s6] fe_humidity_other [OF s5])
  have src: "get_col df3 ''atemp'' = get_col df ''atemp''"
    and tgt: "get_col df3 ''atemp_category'' = get_col df ''atemp_category''"
    by (simp_all add: pre fe_quartiles_other [OF s3])
  show "get_col df' ''atemp_category'' = get_col df ''atemp_category''"
    if "get_col df ''atemp'' = None \<or> get_col df ''atemp_category'' \<noteq> None"
    using fe_quartiles_skipped [OF s4] that by (simp add: post src tgt)
  show "\<exists>cat. qcut s 4 temp_labels = Inr cat \<and> get_col df' ''atemp_category'' = Some cat"
    if "get_col df ''atemp'' = Some s" and "get_col df ''atemp_category'' = None"
    using fe_quartiles_done [OF s4, of s] that by (simp add: post src tgt)
qed

lemma feature_engineering_humidity_category:
  assumes "feature_engineering df = Inr df'"
  shows "get_col df ''humidity'' = None \<or> get_col df ''humidity_category'' \<noteq> None \<Longrightarrow>
           get_col df' ''humidity_category'' = get_col df ''humidity_category''"
    and "get_col df ''humidity'' = Some s \<Longrightarrow> get_col df ''humidity_category'' = None \<Longrightarrow>
           \<exists>cat. cut s [- 1, 30, 60, 100] level_labels = Inr cat
             \<and> get_col df' ''humidity_category'' = Some cat"
proof -
  from assms obtain df2 df3 df4 df5 where
    s3: "fe_quartiles ''temp'' ''temp_category'' df2 = Inr df3" and
    s4: "fe_quartiles ''atemp'' ''atemp_category'' df3 = Inr df4" and
    s5: "fe_humidity df4 = Inr df5" and
    s6: "fe_windspeed df5 = Inr df'" and
    pre: "\<forall>c. c \<notin> set [''hour'', ''day_of_week'', ''weekday'', ''month'', ''year'',
                     ''date'', ''season_label'', ''weather_label'', ''count''] \<longrightarrow>
            get_col df2 c = get_col df c"
    using feature_engineering_trace by blast
  have post: "get_col df' ''humidity_category'' = get_col df5 ''humidity_category''"
    by (simp add: fe_windspeed_other [OF s6])
  have src: "get_col df4 ''humidity'' = get_col df ''humidity''"
    and tgt: "get_col df4 ''humidity_category'' = get_col df ''humidity_category''"
    by (simp_all add: pre fe_quartiles_other [OF s3] fe_quartiles_other [OF s4])
  show "get_col df' ''humidity_category'' = get_col df ''humidity_category''"
    if "get_col df ''humidity'' = None \<or> get_col df ''humidity_category'' \<noteq> None"
    using fe_humidity_skipped [OF s5] that by (simp add: post src tgt)
  show "\<exists>cat. cut s [- 1, 30, 60, 100] level_labels = Inr cat
          \<and> get_col df' ''humidity_category'' = Some cat"
    if "get_col df ''humidity'' = Some s" and "get_col df ''humidity_category'' = None"
    using fe_humidity_done [OF s5, of s] that by (simp add: post src tgt)
qed

lemma feature_engineering_windspeed_skipped:
  assumes "feature_engineering df = Inr df'"
    and "get_col df ''windspeed'' = None \<or> get_col df ''windspeed_category'' \<noteq> None"
  shows "get_col df' ''windspeed_category'' = get_col df ''windspeed_category''"
    and "get_col df' ''windspeed'' = get_col df ''windspeed''"
proof -
  from assms(1) obtain df2 df3 df4 df5 where
    s3: "fe_quartiles ''temp'' ''temp_category'' df2 = Inr df3" and
    s4: "fe_quartiles ''atemp'' ''atemp_category'' df3 = Inr df4" and
    s5: "fe_humidity df4 = Inr df5" and
    s6: "fe_windspeed df5 = Inr df'" and
    pre: "\<forall>c. c \<notin> set [''hour'', ''day_of_week'', ''weekday'', ''month'', ''year'',
                     ''date'', ''season_label'', ''weather_label'', ''count''] \<longrightarrow>
            get_col df2 c = get_col df c"
    using feature_engineering_trace by blast
  have src: "get_col df5 ''windspeed'' = get_col df ''windspeed''"
    and tgt: "get_col df5 ''windspeed_category'' = get_col df ''windspeed_category''"
    by (simp_all add: pre fe_quartiles_other [OF s3] fe_quartiles_other [OF s4]
        fe_humidity_other [OF s5])
  from fe_windspeed_skipped [OF s6] assms(2) have "df' = df5"
    by (simp add: src tgt)
  then show "get_col df' ''windspeed_category'' = get_col df ''windspeed_category''"
    and "get_col df' ''windspeed'' = get_col df ''windspeed''"
    by (simp_all add: src tgt)
qed

lemma feature_engineering_datetime_cols:
  assumes "feature_engineering df = Inr df'"
  shows "get_col df ''datetime'' = None \<Longrightarrow>
           c \<in> set [''hour'', ''day_of_week'', ''weekday'', ''month'', ''year'', ''date''] \<Longrightarrow>
           get_col df' c = get_col df c"
    and "get_col df ''datetime'' = Some s \<Longrightarrow>
           \<exists>ds. s = Datetime ds
             \<and> get_col df' ''hour'' = Some (dt_hour ds)
             \<and> get_col df' ''day_of_week'' = Some (dt_day_name ds)
             \<and> get_col df' ''weekday'' = Some (dt_weekday ds)
             \<and> get_col df' ''month'' = Some (dt_month ds)
             \<and> get_col df' ''year'' = Some (dt_year ds)
             \<and> get_col df' ''date'' = Some (dt_date ds)"
proof -
  from assms obtain df1 df2 df3 df4 df5 where
    s1: "fe_datetime df = Inr df1" and
    s2: "fe_count (fe_weather (fe_season df1)) = Inr df2" and
    s3: "fe_quartiles ''temp'' ''temp_category'' df2 = Inr df3" and
    s4: "fe_quartiles ''atemp'' ''atemp_category'' df3 = Inr df4" and
    s5: "fe_humidity df4 = Inr df5" and
    s6: "fe_windspeed df5 = Inr df'"
    by (rule feature_engineering_steps)
  have post: "get_col df' c = get_col df1 c"
    if "c \<in> set [''hour'', ''day_of_week'', ''weekday'', ''month'', ''year'', ''date'']" for c
    using that
    by (auto simp: fe_windspeed_other [OF s6] fe_humidity_other [OF s5]
        fe_quartiles_other [OF s4] fe_quartiles_other [OF s3] fe_count_other [OF s2]
        fe_weather_other fe_season_other)
  show "get_col df' c = get_col df c"
    if "get_col df ''datetime'' = None"
      and "c \<in> set [''hour'', ''day_of_week'', ''weekday'', ''month'', ''year'', ''date'']"
    using s1 that by (simp add: post fe_datetime_absent)
  show "\<exists>ds. s = Datetime ds
             \<and> get_col df' ''hour'' = Some (dt_hour ds)
             \<and> get_col df' ''day_of_week'' = Some (dt_day_name ds)
             \<and> get_col df' ''weekday'' = Some (dt_weekday ds)
             \<and> get_col df' ''month'' = Some (dt_month ds)
             \<and> get_col df' ''year'' = Some (dt_year ds)
             \<and> get_col df' ''date'' = Some (dt_date ds)"
    if "get_col df ''datetime'' = Some s"
    using fe_datetime_present [OF s1 that] by (simp add: post)
qed


text \<open>
  C2 as amended. Whenever \<open>feature_engineering\<close> returns:
  \<^item> count, temp_category, atemp_category, humidity_category and windspeed_category are
    guarded by their target: such a column is left as it was when it is already present
    or a source column is missing, and it is computed and present in the result when it
    was absent and its sources are present;
  \<^item> hour, day_of_week, weekday, month, year, date, season_label and weather_label are
    not guarded by their target: such a column is left as it was when its source column
    is missing, and is assigned from the source whenever the source is present, whatever
    the table held under that name.
\<close>

theorem derived_columns_guards:
  assumes "feature_engineering df = Inr df'"
  shows "(\<forall>(t, srcs) \<in> set guarded_columns.
            has_col t df \<or> (\<exists>s \<in> set srcs. \<not> has_col s df) \<longrightarrow>
            get_col df' t = get_col df t)
       \<and> (\<forall>(t, srcs) \<in> set guarded_columns.
            \<not> has_col t df \<and> (\<forall>s \<in> set srcs. has_col s df) \<longrightarrow> has_col t df')
       \<and> (\<forall>(t, src) \<in> set unguarded_columns.
            \<not> has_col src df \<longrightarrow> get_col df' t = get_col df t)
       \<and> (\<forall>s. get_col df ''datetime'' = Some s \<longrightarrow>
            (\<exists>ds. s = Datetime ds
               \<and> get_col df' ''hour'' = Some (dt_hour ds)
               \<and> get_col df' ''day_of_week'' = Some (dt_day_name ds)
               \<and> get_col df' ''weekday'' = Some (dt_weekday ds)
               \<and> get_col df' ''month'' = Some (dt_month ds)
               \<and> get_col df' ''year'' = Some (dt_year ds)
               \<and> get_col df' ''date'' = Some (dt_date ds)))
       \<and> (\<forall>s. get_col df ''season'' = Some s \<longrightarrow>
            get_col df' ''season_label'' = Some (map_labels season_map s))
       \<and> (\<forall>s. get_col df ''weather'' = Some s \<longrightarrow>
            get_col df' ''weather_label'' = Some (map_labels weather_map s))"
proof -
  note count = feature_engineering_count [OF assms]
  note temp = feature_engineering_temp_category [OF assms]
  note atemp = feature_engineering_atemp_category [OF assms]
  note humidity = feature_engineering_humidity_category [OF assms]
  note wind_skip = feature_engineering_windspeed_skipped [OF assms]
  note wind_done = feature_engineering_windspeed [OF assms]
  note stamps = feature_engineering_datetime_cols [OF assms]
  note season = feature_engineering_season_label [OF assms]
  note weather = feature_engineering_weather_label [OF assms]

  have k1: "has_col ''count'' df \<or> \<not> has_col ''registered'' df \<or> \<not> has_col ''casual'' df
      \<longrightarrow> get_col df' ''count'' = get_col df ''count''"
    by (auto simp: count has_col_get_col split: option.splits)
  have k2: "has_col ''temp_category'' df \<or> \<not> has_col ''temp'' df
      \<longrightarrow> get_col df' ''temp_category'' = get_col df ''temp_category''"
    using temp(1) by (auto simp: has_col_get_col)
  have k3: "has_col ''atemp_category'' df \<or> \<not> has_col ''atemp'' df
      \<longrightarrow> get_col df' ''atemp_category'' = get_col df ''atemp_category''"
    using atemp(1) by (auto simp: has_col_get_col)
  have k4: "has_col ''humidity_category'' df \<or> \<not> has_col ''humidity'' df
      \<longrightarrow> get_col df' ''humidity_category'' = get_col df ''humidity_category''"
    using humidity(1) by (auto simp: has_col_get_col)
  have k5: "has_col ''windspeed_category'' df \<or> \<not> has_col ''windspeed'' df
      \<longrightarrow> get_col df' ''windspeed_category'' = get_col df ''windspeed_category''"
    using wind_skip(1) by (auto simp: has_col_get_col)
  have kept: "\<forall>(t, srcs) \<in> set guarded_columns.
      has_col t df \<or> (\<exists>s \<in> set srcs. \<not> has_col s df) \<longrightarrow> get_col df' t = get_col df t"
    using k1 k2 k3 k4 k5 by (simp add: guarded_columns_def)

  have c1: "\<not> has_col ''count'' df \<and> has_col ''registered'' df \<and> has_col ''casual'' df
      \<longrightarrow> has_col ''count'' df'"
    using feature_engineering_count_defined [OF assms] by (fastforce simp: has_col_get_col)
  have c2: "\<not> has_col ''temp_category'' df \<and> has_col ''temp'' df
      \<longrightarrow> has_col ''temp_category'' df'"
    using temp(2) by (fastforce simp: has_col_get_col)
  have c3: "\<not> has_col ''atemp_category'' df \<and> has_col ''atemp'' df
      \<longrightarrow> has_col ''atemp_category'' df'"
    using atemp(2) by (fastforce simp: has_col_get_col)
  have c4: "\<not> has_col ''humidity_category'' df \<and> has_col ''humidity'' df
      \<longrightarrow> has_col ''humidity_category'' df'"
    using humidity(2) by (fastforce simp: has_col_get_col)
  have c5: "\<not> has_col ''windspeed_category'' df \<and> has_col ''windspeed'' df
      \<longrightarrow> has_col ''windspeed_category'' df'"
    using wind_done by (fastforce simp: has_col_get_col)
  have computed: "\<forall>(t, srcs) \<in> set guarded_columns.
      \<not> has_col t df \<and> (\<forall>s \<in> set srcs. has_col s df) \<longrightarrow> has_col t df'"
    using c1 c2 c3 c4 c5 by (simp add: guarded_columns_def)

  have u1: "\<not> has_col ''datetime'' df \<longrightarrow>
      get_col df' ''hour'' = get_col df ''hour''
      \<and> get_col df' ''day_of_week'' = get_col df ''day_of_week''
      \<and> get_col df' ''weekday'' = get_col df ''weekday''
      \<and> get_col df' ''month'' = get_col df ''month''
      \<and> get_col df' ''year'' = get_col df ''year''
      \<and> get_col df' ''date'' = get_col df ''date''"
    using stamps(1) by (simp add: has_col_get_col)
  have u2: "\<not> has_col ''season'' df \<longrightarrow>
      get_col df' ''season_label'' = get_col df ''season_label''"
    by (simp add: season has_col_get_col)
  have u3: "\<not> has_col ''weather'' df \<longrightarrow>
      get_col df' ''weather_label'' = get_col df ''weather_label''"
    by (simp add: weather has_col_get_col)
  have untouched: "\<forall>(t, src) \<in> set unguarded_columns.
      \<not> has_col src df \<longrightarrow> get_col df' t = get_col df t"
    using u1 u2 u3 by (simp add: unguarded_columns_def)

  have assigned: "\<forall>s. get_col df ''datetime'' = Some s \<longrightarrow>
      (\<exists>ds. s = Datetime ds
         \<and> get_col df' ''hour'' = Some (dt_hour ds)
         \<and> get_col df' ''day_of_week'' = Some (dt_day_name ds)
         \<and> get_col df' ''weekday'' = Some (dt_weekday ds)
         \<and> get_col df' ''month'' = Some (dt_month ds)
         \<and> get_col df' ''year'' = Some (dt_year ds)
         \<and> get_col df' ''date'' = Some (dt_date ds))"
    using stamps(2) by blast
  have labelled: "\<forall>s. get_col df ''season'' = Some s \<longrightarrow>
      get_col df' ''season_label'' = Some (map_labels season_map s)"
    "\<forall>s. get_col df ''weather'' = Some s \<longrightarrow>
      get_col df' ''weather_label'' = Some (map_labels weather_map s)"
    by (simp_all add: season weather)
  from kept computed untouched assigned labelled show ?thesis
    by blast
qed

text \<open>
  The claim as stated fails: a table with a datetime column and an hour column holding 23
  comes back with the hour column holding 5, the hour of the timestamp.
\<close>

theorem hour_overwritten_counterexample:
  "has_col ''hour'' stamped_frame
   \<and> get_col stamped_frame ''hour'' = Some (Numeric [Some 23])
   \<and> feature_engineering stamped_frame = Inr stamped_result
   \<and> get_col stamped_result ''hour'' = Some (Numeric [Some 5])
   \<and> get_col stamped_result ''hour'' \<noteq> get_col stamped_frame ''hour''"
  by code_simp

theorem derived_columns_guards_witness:
  "feature_engineering stamped_frame = Inr stamped_result
   \<and> get_col stamped_frame ''datetime'' = Some (Datetime [Some (Timestamp 2011 1 1 5 0 0)])
   \<and> get_col stamped_result ''hour'' = Some (dt_hour [Some (Timestamp 2011 1 1 5 0 0)])
   \<and> get_col stamped_result ''temp_category'' = get_col stamped_frame ''temp_category''"
proof -
  have fe: "feature_engineering stamped_frame = Inr stamped_result"
    by code_simp
  have dt: "get_col stamped_frame ''datetime''
      = Some (Datetime [Some (Timestamp 2011 1 1 5 0 0)])"
    by code_simp
  have nt: "\<not> has_col ''temp'' stamped_frame"
    by code_simp
  have g: "(''temp_category'', [''temp'']) \<in> set guarded_columns"
    by (simp add: guarded_columns_def)
  note all = derived_columns_guards [OF fe]
  from all dt have "get_col stamped_result ''hour''
      = Some (dt_hour [Some (Timestamp 2011 1 1 5 0 0)])"
    by auto
  moreover from all g nt
  have "get_col stamped_result ''temp_category'' = get_col stamped_frame ''temp_category''"
    by fastforce
  ultimately show ?thesis
    using fe dt by simp
qed

section \<open>The errors the pipeline can raise after the load\<close>

lemma get_col_map_cols:
  "get_col (map (\<lambda>(c, s). (c, f s)) df) c = map_option f (get_col df c)"
  by (induction df) (auto simp: get_col_def)

lemma is_datetime_take_rows: "is_datetime (take_rows idx s) = is_datetime s"
  by (cases s) simp_all

lemma basic_clean_datetime:
  assumes "get_col (basic_clean PD df) ''datetime'' = Some s"
  shows "is_datetime s"
proof -
  let ?df1 = "rename (\<lambda>c. lower (strip c)) df"
  let ?df2 = "case get_col ?df1 ''datetime'' of
                None \<Rightarrow> ?df1
              | Some s \<Rightarrow> set_col ''datetime'' (Datetime (to_datetime PD s)) ?df1"
  have "\<forall>s. get_col ?df2 ''datetime'' = Some s \<longrightarrow> is_datetime s"
    by (auto simp: get_col_set_col split: option.splits)
  moreover from assms obtain idx s0 where
    "get_col ?df2 ''datetime'' = Some s0" and "s = take_rows idx s0"
    by (auto simp: basic_clean_def drop_duplicates_def Let_def get_col_map_cols)
  ultimately show ?thesis
    by (simp add: is_datetime_take_rows)
qed

lemma impute_loop_has_col: "has_col c (impute_loop P cs df) = has_col c df"
  by (induction cs arbitrary: df)
     (auto simp: has_col_get_col get_col_set_col split: option.splits)

lemma cast_loop_has_col: "has_col c (cast_loop P cs df) = has_col c df"
  by (induction cs arbitrary: df)
     (auto simp: has_col_get_col get_col_set_col split: option.splits)

lemma impute_and_cast_has_col: "has_col c (impute_and_cast P df) = has_col c df"
  by (simp add: impute_and_cast_def impute_loop_has_col cast_loop_has_col)

lemma impute_and_cast_numeric:
  assumes "c \<in> set numeric_cols" and "get_col (impute_and_cast P df) c = Some s"
  shows "is_number s"
proof -
  from assms(2) have "has_col c df"
    using impute_and_cast_has_col [of c P df] by (simp add: has_col_get_col)
  then obtain s0 where "get_col df c = Some s0"
    by (auto simp: has_col_get_col)
  from impute_and_cast_numeric_col [OF assms(1) this, of P] assms(2) show ?thesis
    by (simp add: impute_col_def Let_def)
qed

lemma impute_and_cast_datetime:
  "get_col (impute_and_cast P df) ''datetime'' = get_col df ''datetime''"
proof -
  have "''datetime'' \<notin> set numeric_cols" and "''datetime'' \<notin> set categorical_cols"
    by (simp_all add: numeric_cols_def categorical_cols_def)
  then show ?thesis
    by (simp add: impute_and_cast_def impute_loop_other cast_loop_other)
qed

lemma bins_to_cuts_error: "bins_to_cuts bins labels lowest xs = Inl e \<Longrightarrow> e = ValueError"
  by (auto simp: bins_to_cuts_def split: if_splits)

lemma qcut_numeric_error: "qcut (Numeric xs) q labels = Inl e \<Longrightarrow> e = ValueError"
  by (auto simp: qcut_def Let_def dest: bins_to_cuts_error)

lemma qcut_error: "is_number s \<Longrightarrow> qcut s q labels = Inl e \<Longrightarrow> e = ValueError"
  by (cases s) (auto dest: qcut_numeric_error)

lemma cut_humidity_total:
  "is_number s \<Longrightarrow> \<exists>cat. cut s [- 1, 30, 60, 100] level_labels = Inr cat"
  by (cases s) (simp_all add: cut_def bins_to_cuts_def level_labels_def)

lemma ebind_Inl_iff:
  "ebind m f = Inl e \<longleftrightarrow> m = Inl e \<or> (\<exists>x. m = Inr x \<and> f x = Inl e)"
  by (cases m) (simp_all add: ebind_def)

lemma fe_datetime_total:
  assumes "\<forall>s. get_col df ''datetime'' = Some s \<longrightarrow> is_datetime s"
  shows "\<exists>df1. fe_datetime df = Inr df1"
proof (cases "get_col df ''datetime''")
  case None
  then show ?thesis by (simp add: fe_datetime_def)
next
  case (Some s)
  with assms obtain ds where "s = Datetime ds"
    by (cases s) auto
  with Some show ?thesis
    by (simp add: fe_datetime_def dt_accessor_def ebind_def)
qed

lemma fe_count_total:
  assumes "\<forall>s. get_col df ''registered'' = Some s \<longrightarrow> is_number s"
    and "\<forall>s. get_col df ''casual'' = Some s \<longrightarrow> is_number s"
  shows "\<exists>df2. fe_count df = Inr df2"
proof (cases "\<not> has_col ''count'' df \<and> has_col ''registered'' df \<and> has_col ''casual'' df")
  case True
  then obtain r c where rc: "get_col df ''registered'' = Some r" "get_col df ''casual'' = Some c"
    by (auto simp: has_col_get_col)
  with assms obtain xs ys where "r = Numeric xs" "c = Numeric ys"
    by (cases r; cases c) auto
  with True rc show ?thesis
    by (simp add: fe_count_def series_add_def ebind_def)
next
  case False
  then show ?thesis by (auto simp: fe_count_def)
qed

lemma fe_quartiles_error:
  assumes "\<forall>s. get_col df src = Some s \<longrightarrow> is_number s"
    and "fe_quartiles src tgt df = Inl e"
  shows "e = ValueError"
  using assms
  by (auto simp: fe_quartiles_def ebind_Inl_iff dest: qcut_error split: option.splits if_splits)

lemma fe_humidity_total:
  assumes "\<forall>s. get_col df ''humidity'' = Some s \<longrightarrow> is_number s"
  shows "\<exists>df5. fe_humidity df = Inr df5"
proof (cases "get_col df ''humidity''")
  case None
  then show ?thesis by (simp add: fe_humidity_def)
next
  case (Some s)
  with assms cut_humidity_total [of s] obtain cat where
    "cut s [- 1, 30, 60, 100] level_labels = Inr cat"
    by auto
  with Some show ?thesis
    by (simp add: fe_humidity_def ebind_def)
qed

lemma fe_windspeed_error:
  assumes "\<forall>s. get_col df ''windspeed'' = Some s \<longrightarrow> is_number s"
    and "fe_windspeed df = Inl e"
  shows "e = ValueError"
  using assms
  by (auto simp: fe_windspeed_def ebind_Inl_iff Let_def dest: qcut_numeric_error
           split: option.splits if_splits series.splits)

text \<open>
  On a frame typed as \<open>basic_clean\<close> and \<open>impute_and_cast\<close> leave it (a datetime column of
  dtype datetime64, the seven numeric columns numeric), \<open>feature_engineering\<close> raises
  nothing but the ValueError of the quantile binning.
\<close>

lemma feature_engineering_error:
  assumes dt: "\<forall>s. get_col df ''datetime'' = Some s \<longrightarrow> is_datetime s"
    and num: "\<forall>c s. c \<in> set numeric_cols \<and> get_col df c = Some s \<longrightarrow> is_number s"
    and err: "feature_engineering df = Inl e"
  shows "e = ValueError"
proof -
  from fe_datetime_total [OF dt] obtain df1 where s1: "fe_datetime df = Inr df1"
    by blast
  let ?dw = "fe_weather (fe_season df1)"
  have early: "get_col ?dw c = get_col df c" if "c \<in> set numeric_cols" for c
    using that
    by (auto simp: numeric_cols_def fe_weather_other fe_season_other fe_datetime_other [OF s1])
  have numw: "\<forall>s. get_col ?dw c = Some s \<longrightarrow> is_number s" if "c \<in> set numeric_cols" for c
    using that num by (simp add: early)
  have "\<exists>df2. fe_count ?dw = Inr df2"
    using numw [of "''registered''"] numw [of "''casual''"]
    by (intro fe_count_total) (simp_all add: numeric_cols_def)
  then obtain df2 where s2: "fe_count ?dw = Inr df2"
    by blast
  have num2: "\<forall>s. get_col df2 c = Some s \<longrightarrow> is_number s"
    if "c \<in> set [''temp'', ''atemp'', ''humidity'', ''windspeed'']" for c
    using that numw [of c] by (auto simp: fe_count_other [OF s2] numeric_cols_def)
  from err s1 s2 have rest:
    "ebind (fe_quartiles ''temp'' ''temp_category'' df2) (\<lambda>df3.
     ebind (fe_quartiles ''atemp'' ''atemp_category'' df3) (\<lambda>df4.
     ebind (fe_humidity df4) (\<lambda>df5. fe_windspeed df5))) = Inl e"
    by (simp add: feature_engineering_def ebind_def)
  show ?thesis
  proof (cases "fe_quartiles ''temp'' ''temp_category'' df2")
    case (Inl e3)
    with rest have "e3 = e" by (simp add: ebind_def)
    with Inl fe_quartiles_error [OF num2, of "''temp''" "''temp_category''" e]
    show ?thesis by simp
  next
    case s3: (Inr df3)
    have num3: "\<forall>s. get_col df3 c = Some s \<longrightarrow> is_number s"
      if "c \<in> set [''atemp'', ''humidity'', ''windspeed'']" for c
      using that num2 [of c] by (auto simp: fe_quartiles_other [OF s3])
    show ?thesis
    proof (cases "fe_quartiles ''atemp'' ''atemp_category'' df3")
      case (Inl e4)
      with rest s3 have "e4 = e" by (simp add: ebind_def)
      with Inl fe_quartiles_error [OF num3, of "''atemp''" "''atemp_category''" e]
      show ?thesis by simp
    next
      case s4: (Inr df4)
      have num4: "\<forall>s. get_col df4 c = Some s \<longrightarrow> is_number s"
        if "c \<in> set [''humidity'', ''windspeed'']" for c
        using that num3 [of c] by (auto simp: fe_quartiles_other [OF s4])
      from fe_humidity_total [OF num4 [of "''humidity''"]]
      obtain df5 where s5: "fe_humidity df4 = Inr df5"
        by auto
      have num5: "\<forall>s. get_col df5 ''windspeed'' = Some s \<longrightarrow> is_number s"
        using num4 [of "''windspeed''"] by (simp add: fe_humidity_other [OF s5])
      from rest s3 s4 s5 have "fe_windspeed df5 = Inl e"
        by (simp add: ebind_def)
      from fe_windspeed_error [OF num5 this] show ?thesis .
    qed
  qed
qed

lemma process_error:
  assumes "process L W input_path url output_path = Inl e"
  shows "load_data L W input_path url = Inl e
       \<or> (\<exists>df0. load_data L W input_path url = Inr df0) \<and> e = ValueError"
proof (cases "load_data L W input_path url")
  case (Inl e0)
  with assms show ?thesis
    by (simp add: process_def ebind_def)
next
  case (Inr df0)
  let ?df = "impute_and_cast (parse_number L) (basic_clean (parse_datetime L) df0)"
  from assms Inr have "feature_engineering ?df = Inl e"
    by (simp add: process_def Let_def ebind_def split: sum.splits)
  moreover have "\<forall>s. get_col ?df ''datetime'' = Some s \<longrightarrow> is_datetime s"
    by (simp add: impute_and_cast_datetime basic_clean_datetime)
  moreover have "\<forall>c s. c \<in> set numeric_cols \<and> get_col ?df c = Some s \<longrightarrow> is_number s"
    using impute_and_cast_numeric by blast
  ultimately have "e = ValueError"
    by (rule feature_engineering_error [rotated 2])
  with Inr show ?thesis by simp
qed


text \<open>
  C1. Two sources that load and whose rows are all different. In the first, three of the
  four wind speeds are 0, so the median is 0, the substitution changes nothing and the
  tercile edges are 0, 0, 0, 7. In the second, the quartile edges of temp are
  10, 10, 10, 10, 20. In both \<^verbatim>\<open>pd.qcut\<close> raises ValueError inside \<open>feature_engineering\<close>:
  the pipeline raises after a successful load and writes nothing.
\<close>

theorem process_raises_on_tied_quantiles:
  "load_data example_pandas calm_world (Some ''in.csv'') None = Inr calm_frame
   \<and> impute_and_cast (parse_number example_pandas)
        (basic_clean (parse_datetime example_pandas) calm_frame) = calm_frame
   \<and> median [Some 0, Some 0, Some 0, Some 7] = Some 0
   \<and> feature_engineering calm_frame = Inl ValueError
   \<and> process example_pandas calm_world (Some ''in.csv'') None None = Inl ValueError
   \<and> load_data example_pandas tied_world (Some ''in.csv'') None = Inr tied_frame
   \<and> impute_and_cast (parse_number example_pandas)
        (basic_clean (parse_datetime example_pandas) tied_frame) = tied_frame
   \<and> feature_engineering tied_frame = Inl ValueError
   \<and> process example_pandas tied_world (Some ''in.csv'') None None = Inl ValueError"
proof -
  have load: "load_data example_pandas calm_world (Some ''in.csv'') None = Inr calm_frame"
    by code_simp
  have clean: "impute_and_cast (parse_number example_pandas)
      (basic_clean (parse_datetime example_pandas) calm_frame) = calm_frame"
    by code_simp
  have med: "median [Some 0, Some 0, Some 0, Some 7] = Some 0"
    by code_simp
  have fe: "feature_engineering calm_frame = Inl ValueError"
    by code_simp
  have run: "process example_pandas calm_world (Some ''in.csv'') None None = Inl ValueError"
    by (simp add: process_def load clean fe ebind_def)
  have load': "load_data example_pandas tied_world (Some ''in.csv'') None = Inr tied_frame"
    by code_simp
  have clean': "impute_and_cast (parse_number example_pandas)
      (basic_clean (parse_datetime example_pandas) tied_frame) = tied_frame"
    by code_simp
  have fe': "feature_engineering tied_frame = Inl ValueError"
    by code_simp
  have run': "process example_pandas tied_world (Some ''in.csv'') None None = Inl ValueError"
    by (simp add: process_def load' clean' fe' ebind_def)
  from load clean med fe run load' clean' fe' run' show ?thesis
    by simp
qed

end
